theory Spec2Isabelle
  imports Main "HOL-Library.Word"
begin

section \<open>Values of the plugin framework\<close>

text \<open>
  The adapters of the Loopia provider exchange three kinds of data with the plugin
  framework: typed attribute values (\<^verbatim>\<open>types.String\<close>, \<^verbatim>\<open>types.Int32\<close>), which are
  null, unknown or known; diagnostics; and the state of a resource. The Go integers
  are machine words: \<^verbatim>\<open>int32\<close> and \<^verbatim>\<open>int64\<close> have their width, and Go's \<^verbatim>\<open>int\<close> is
  taken at its width on 64-bit targets.
\<close>

type_synonym int32 = "32 word"
type_synonym int64 = "64 word"
type_synonym go_int = "64 word"

datatype 'a attr_value = Null | Unknown | Known 'a

text \<open>\<^verbatim>\<open>ValueString\<close> and \<^verbatim>\<open>ValueInt32\<close> give the zero value for null and unknown.\<close>

fun ValueString :: "string attr_value \<Rightarrow> string" where
  "ValueString (Known s) = s"
| "ValueString Null = []"
| "ValueString Unknown = []"

fun ValueInt32 :: "int32 attr_value \<Rightarrow> int32" where
  "ValueInt32 (Known n) = n"
| "ValueInt32 Null = 0"
| "ValueInt32 Unknown = 0"

fun IsNull :: "'a attr_value \<Rightarrow> bool" where
  "IsNull Null = True"
| "IsNull Unknown = False"
| "IsNull (Known v) = False"

fun IsUnknown :: "'a attr_value \<Rightarrow> bool" where
  "IsUnknown Unknown = True"
| "IsUnknown Null = False"
| "IsUnknown (Known v) = False"

text \<open>The Go conversions between integer types: widening a signed integer extends
  its sign, narrowing keeps the low bits.\<close>

definition int64_of_int32 :: "int32 \<Rightarrow> int64" where
  "int64_of_int32 n = scast n"

definition int_of_int32 :: "int32 \<Rightarrow> go_int" where
  "int_of_int32 n = scast n"

definition int32_of_int64 :: "int64 \<Rightarrow> int32" where
  "int32_of_int64 n = ucast n"

definition int32_of_int :: "go_int \<Rightarrow> int32" where
  "int32_of_int n = ucast n"

text \<open>A value is representable as a signed 32-bit integer.\<close>

definition fits_int32 :: "64 word \<Rightarrow> bool" where
  "fits_int32 n = (- (2 ^ 31) \<le> sint n \<and> sint n < 2 ^ 31)"

subsection \<open>Formatting with \<^verbatim>\<open>%d\<close>\<close>

definition digit :: "nat \<Rightarrow> char" where
  "digit d = ''0123456789'' ! d"

fun decimal :: "nat \<Rightarrow> string" where
  "decimal n = (if 10 \<le> n then decimal (n div 10) @ [digit (n mod 10)] else [digit n])"

definition Sprintf_d :: "int32 \<Rightarrow> string" where
  "Sprintf_d n = (if 0 \<le> sint n then decimal (nat (sint n)) else CHR ''-'' # decimal (nat (- sint n)))"

subsection \<open>Diagnostics\<close>

datatype severity = SeverityError | SeverityWarning

record diagnostic =
  Severity :: severity
  Summary :: string
  Detail :: string
  Path :: "string option"

type_synonym Diagnostics = "diagnostic list"

text \<open>\<^verbatim>\<open>Diagnostics.Append\<close> of the framework adds the diagnostics it is given in order,
  skipping one that the collection already contains.\<close>

fun Append :: "Diagnostics \<Rightarrow> diagnostic list \<Rightarrow> Diagnostics" where
  "Append ds [] = ds"
| "Append ds (d # new) = Append (if d \<in> set ds then ds else ds @ [d]) new"

fun HasError :: "Diagnostics \<Rightarrow> bool" where
  "HasError [] = False"
| "HasError (d # ds) = (Severity d = SeverityError \<or> HasError ds)"

definition NewErrorDiagnostic :: "string \<Rightarrow> string \<Rightarrow> diagnostic" where
  "NewErrorDiagnostic summary detail =
     \<lparr>Severity = SeverityError, Summary = summary, Detail = detail, Path = None\<rparr>"

definition NewAttributeErrorDiagnostic :: "string \<Rightarrow> string \<Rightarrow> string \<Rightarrow> diagnostic" where
  "NewAttributeErrorDiagnostic root summary detail =
     \<lparr>Severity = SeverityError, Summary = summary, Detail = detail, Path = Some root\<rparr>"

definition AddError :: "Diagnostics \<Rightarrow> string \<Rightarrow> string \<Rightarrow> Diagnostics" where
  "AddError ds summary detail = Append ds [NewErrorDiagnostic summary detail]"

definition AddAttributeError :: "Diagnostics \<Rightarrow> string \<Rightarrow> string \<Rightarrow> string \<Rightarrow> Diagnostics" where
  "AddAttributeError ds root summary detail =
     Append ds [NewAttributeErrorDiagnostic root summary detail]"

section \<open>The zone record model and the client's record\<close>

text \<open>\<^verbatim>\<open>loopia.Record\<close> of the client library, with the fields the adapters read and write.\<close>

record loopia_Record =
  ID :: int64
  TTL :: go_int
  Type :: string
  Value :: string
  Priority :: go_int

text \<open>\<^verbatim>\<open>recordModel\<close>: the fields carry the prefix \<open>m_\<close>, since \<^verbatim>\<open>Type\<close>, \<^verbatim>\<open>Value\<close> and
  \<^verbatim>\<open>Priority\<close> are also fields of the client's record.\<close>

record recordModel =
  m_Type :: "string attr_value"
  m_Ttl :: "int32 attr_value"
  m_Priority :: "int32 attr_value"
  m_Value :: "string attr_value"
  m_RecordId :: "int32 attr_value"

record ZoneRecordResourceModel =
  zr_Domain :: "string attr_value"
  zr_Subdomain :: "string attr_value"
  zr_Record :: recordModel

definition toClientRecord :: "recordModel \<Rightarrow> loopia_Record" where
  "toClientRecord m =
     \<lparr>ID = int64_of_int32 (ValueInt32 (m_RecordId m)),
      TTL = int_of_int32 (ValueInt32 (m_Ttl m)),
      Type = ValueString (m_Type m),
      Value = ValueString (m_Value m),
      Priority = int_of_int32 (ValueInt32 (m_Priority m))\<rparr>"

definition recordModelFromClient :: "loopia_Record \<Rightarrow> recordModel" where
  "recordModelFromClient rec =
     \<lparr>m_Type = Known (Type rec),
      m_Ttl = Known (int32_of_int (TTL rec)),
      m_Priority = Known (int32_of_int (Priority rec)),
      m_Value = Known (Value rec),
      m_RecordId = Known (int32_of_int64 (ID rec))\<rparr>"

definition recordsMatch :: "loopia_Record \<Rightarrow> recordModel \<Rightarrow> bool" where
  "recordsMatch apiRecord planRecord =
     (Type apiRecord = ValueString (m_Type planRecord) \<and>
      Value apiRecord = ValueString (m_Value planRecord) \<and>
      TTL apiRecord = int_of_int32 (ValueInt32 (m_Ttl planRecord)) \<and>
      Priority apiRecord = int_of_int32 (ValueInt32 (m_Priority planRecord)))"

text \<open>The loop of \<^verbatim>\<open>Create\<close> that looks for the created record: the first record of the
  listing that matches, or none (the pointer \<^verbatim>\<open>createdRecord\<close> stays nil).\<close>

fun createdRecord_loop :: "loopia_Record list \<Rightarrow> recordModel \<Rightarrow> loopia_Record option" where
  "createdRecord_loop [] planRecord = None"
| "createdRecord_loop (rec # records) planRecord =
     (if recordsMatch rec planRecord then Some rec
      else createdRecord_loop records planRecord)"

section \<open>The remote client\<close>

text \<open>
  The client library \<^verbatim>\<open>loopia-go\<close> is an external collaborator. An \<^verbatim>\<open>*loopia.API\<close> is
  modelled by its methods, each a function of the state \<open>'w\<close> of the remote service
  that returns the Go results and the new remote state. A Go \<^verbatim>\<open>error\<close> is its text
  (\<^verbatim>\<open>err.Error()\<close>), \<open>None\<close> for \<^verbatim>\<open>nil\<close>; a result that the adapters discard is left out;
  a returned pointer is an option.
\<close>

type_synonym error = string

record loopia_Subdomain =
  Name :: string

record 'w API =
  AddZoneRecord :: "string \<Rightarrow> string \<Rightarrow> loopia_Record \<Rightarrow> 'w \<Rightarrow> error option \<times> 'w"
  GetZoneRecords :: "string \<Rightarrow> string \<Rightarrow> 'w \<Rightarrow> (loopia_Record list \<times> error option) \<times> 'w"
  GetZoneRecord :: "string \<Rightarrow> string \<Rightarrow> int64 \<Rightarrow> 'w \<Rightarrow> (loopia_Record option \<times> error option) \<times> 'w"
  UpdateZoneRecord :: "string \<Rightarrow> string \<Rightarrow> loopia_Record \<Rightarrow> 'w \<Rightarrow> error option \<times> 'w"
  RemoveZoneRecord :: "string \<Rightarrow> string \<Rightarrow> int64 \<Rightarrow> 'w \<Rightarrow> error option \<times> 'w"
  AddSubdomain :: "string \<Rightarrow> string \<Rightarrow> 'w \<Rightarrow> error option \<times> 'w"
  GetSubdomains :: "string \<Rightarrow> 'w \<Rightarrow> (loopia_Subdomain list \<times> error option) \<times> 'w"
  RemoveSubDomain :: "string \<Rightarrow> string \<Rightarrow> 'w \<Rightarrow> error option \<times> 'w"

text \<open>The calls that an adapter makes are recorded, in order and with their arguments,
  beside the remote state.\<close>

datatype call =
    AddZoneRecordCall string string loopia_Record
  | GetZoneRecordsCall string string
  | GetZoneRecordCall string string int64
  | UpdateZoneRecordCall string string loopia_Record
  | RemoveZoneRecordCall string string int64
  | AddSubdomainCall string string
  | GetSubdomainsCall string
  | RemoveSubDomainCall string string

record 'w remote =
  world :: 'w
  calls :: "call list"

definition invoke :: "call \<Rightarrow> ('w \<Rightarrow> 'a \<times> 'w) \<Rightarrow> 'w remote \<Rightarrow> 'a \<times> 'w remote" where
  "invoke c f rs = (case f (world rs) of (res, w) \<Rightarrow> (res, \<lparr>world = w, calls = calls rs @ [c]\<rparr>))"

text \<open>A method called through a nil \<^verbatim>\<open>*loopia.API\<close>, and a nil record pointer that is
  dereferenced, end the handler with a run-time panic.\<close>

datatype panic = NilPointerDereference

section \<open>Requests and responses\<close>

text \<open>
  \<^verbatim>\<open>req.Plan.Get(ctx, &plan)\<close> and \<^verbatim>\<open>req.State.Get(ctx, &state)\<close> decode the framework's
  data into the model and return diagnostics: a request holds, for each, the pair of
  both. The response holds the state (\<open>None\<close> when the resource has none) and the
  diagnostics; a handler receives the response as the framework has prepared it and
  returns it updated. \<^verbatim>\<open>State.Set\<close> stores a model of the schema's shape and returns no
  diagnostic; \<^verbatim>\<open>State.RemoveResource\<close> empties the state.
\<close>

type_synonym 'm decoded = "Diagnostics \<times> 'm"

record 'm CreateRequest =
  cr_Plan :: "'m decoded"

record 'm ReadRequest =
  rr_State :: "'m decoded"

record 'm UpdateRequest =
  ur_Plan :: "'m decoded"
  ur_State :: "'m decoded"

record 'm DeleteRequest =
  dr_State :: "'m decoded"

record 'm Response =
  State :: "'m option"
  Diagnostics :: Diagnostics

definition State_Set :: "'m \<Rightarrow> 'm option \<times> Diagnostics" where
  "State_Set m = (Some m, [])"

definition State_RemoveResource :: "'m option" where
  "State_RemoveResource = None"

definition resp_AddError :: "'m Response \<Rightarrow> string \<Rightarrow> string \<Rightarrow> 'm Response" where
  "resp_AddError resp summary detail = resp\<lparr>Diagnostics := AddError (Diagnostics resp) summary detail\<rparr>"

section \<open>The zone record resource\<close>

record 'w zoneRecordResource =
  zr_client :: "'w API option"

definition NewZoneRecordResource :: "'w zoneRecordResource" where
  "NewZoneRecordResource = \<lparr>zr_client = None\<rparr>"

definition zoneRecordResource_Create ::
  "'w zoneRecordResource \<Rightarrow> ZoneRecordResourceModel CreateRequest \<Rightarrow>
   ZoneRecordResourceModel Response \<Rightarrow> 'w remote \<Rightarrow>
   panic + (ZoneRecordResourceModel Response \<times> 'w remote)" where
  "zoneRecordResource_Create r req resp0 rs0 =
    (case cr_Plan req of (diags, plan) \<Rightarrow>
     let resp = resp0\<lparr>Diagnostics := Append (Diagnostics resp0) diags\<rparr> in
     if HasError (Diagnostics resp) then Inr (resp, rs0)
     else case zr_client r of
       None \<Rightarrow> Inl NilPointerDereference
     | Some api \<Rightarrow>
        let domain = ValueString (zr_Domain plan);
            subdomain = ValueString (zr_Subdomain plan);
            planRecord = toClientRecord (zr_Record plan)
        in case invoke (AddZoneRecordCall domain subdomain planRecord)
                  (AddZoneRecord api domain subdomain planRecord) rs0 of
          (Some err, rs1) \<Rightarrow>
            Inr (resp_AddError resp ''Error Creating Zone Record''
                   (''Could not create zone record: '' @ err), rs1)
        | (None, rs1) \<Rightarrow>
           (case invoke (GetZoneRecordsCall domain subdomain)
                   (GetZoneRecords api domain subdomain) rs1 of
              ((records, Some err), rs2) \<Rightarrow>
                Inr (resp_AddError resp ''Error Fetching Zone Records After Creation''
                       (''Could not list zone records: '' @ err), rs2)
            | ((records, None), rs2) \<Rightarrow>
               (case createdRecord_loop records (zr_Record plan) of
                  None \<Rightarrow>
                    Inr (resp_AddError resp ''Unable to Identify Created Record''
                           ''Could not find the newly created record in the API response.'', rs2)
                | Some createdRecord \<Rightarrow>
                   (case State_Set (plan\<lparr>zr_Record := recordModelFromClient createdRecord\<rparr>) of
                      (st, diags') \<Rightarrow>
                        Inr (resp\<lparr>State := st,
                                  Diagnostics := Append (Diagnostics resp) diags'\<rparr>, rs2)))))"

definition zoneRecordResource_Read ::
  "'w zoneRecordResource \<Rightarrow> ZoneRecordResourceModel ReadRequest \<Rightarrow>
   ZoneRecordResourceModel Response \<Rightarrow> 'w remote \<Rightarrow>
   panic + (ZoneRecordResourceModel Response \<times> 'w remote)" where
  "zoneRecordResource_Read r req resp0 rs0 =
    (case rr_State req of (diags, state) \<Rightarrow>
     let resp = resp0\<lparr>Diagnostics := Append (Diagnostics resp0) diags\<rparr> in
     if HasError (Diagnostics resp) then Inr (resp, rs0)
     else case zr_client r of
       None \<Rightarrow> Inl NilPointerDereference
     | Some api \<Rightarrow>
        let domain = ValueString (zr_Domain state);
            subdomain = ValueString (zr_Subdomain state);
            recordId = ValueInt32 (m_RecordId (zr_Record state))
        in case invoke (GetZoneRecordCall domain subdomain (int64_of_int32 recordId))
                  (GetZoneRecord api domain subdomain (int64_of_int32 recordId)) rs0 of
          ((rec, Some err), rs1) \<Rightarrow>
            Inr (resp_AddError resp ''Error Reading Zone Record''
                   (''Could not read zone record ID '' @ Sprintf_d recordId
                      @ '': '' @ err), rs1)
        | ((None, None), rs1) \<Rightarrow> Inl NilPointerDereference
        | ((Some rec, None), rs1) \<Rightarrow>
           (case State_Set (state\<lparr>zr_Record := recordModelFromClient rec\<rparr>) of
              (st, diags') \<Rightarrow>
                Inr (resp\<lparr>State := st,
                          Diagnostics := Append (Diagnostics resp) diags'\<rparr>, rs1)))"

definition zoneRecordResource_Update ::
  "'w zoneRecordResource \<Rightarrow> ZoneRecordResourceModel UpdateRequest \<Rightarrow>
   ZoneRecordResourceModel Response \<Rightarrow> 'w remote \<Rightarrow>
   panic + (ZoneRecordResourceModel Response \<times> 'w remote)" where
  "zoneRecordResource_Update r req resp0 rs0 =
    (case ur_State req of (diags, state) \<Rightarrow>
     let resp1 = resp0\<lparr>Diagnostics := Append (Diagnostics resp0) diags\<rparr> in
     if HasError (Diagnostics resp1) then Inr (resp1, rs0)
     else case ur_Plan req of (diags2, plan0) \<Rightarrow>
     let resp = resp1\<lparr>Diagnostics := Append (Diagnostics resp1) diags2\<rparr> in
     if HasError (Diagnostics resp) then Inr (resp, rs0)
     else
      let plan = plan0\<lparr>zr_Record := (zr_Record plan0)\<lparr>m_RecordId := m_RecordId (zr_Record state)\<rparr>\<rparr>
      in case zr_client r of
       None \<Rightarrow> Inl NilPointerDereference
     | Some api \<Rightarrow>
        let domain = ValueString (zr_Domain plan);
            subdomain = ValueString (zr_Subdomain plan);
            rec = toClientRecord (zr_Record plan);
            recordId = ValueInt32 (m_RecordId (zr_Record plan))
        in case invoke (UpdateZoneRecordCall domain subdomain rec)
                  (UpdateZoneRecord api domain subdomain rec) rs0 of
          (Some err, rs1) \<Rightarrow>
            Inr (resp_AddError resp ''Error Updating Zone Record''
                   (''Could not update zone record ID '' @ Sprintf_d recordId
                      @ '': '' @ err), rs1)
        | (None, rs1) \<Rightarrow>
           (case invoke (GetZoneRecordCall domain subdomain (int64_of_int32 recordId))
                   (GetZoneRecord api domain subdomain (int64_of_int32 recordId)) rs1 of
              ((updatedRec, Some err), rs2) \<Rightarrow>
                Inr (resp_AddError resp ''Error Refreshing Zone Record After Update''
                       (''Could not read updated zone record: '' @ err), rs2)
            | ((None, None), rs2) \<Rightarrow> Inl NilPointerDereference
            | ((Some updatedRec, None), rs2) \<Rightarrow>
               (case State_Set (plan\<lparr>zr_Record := recordModelFromClient updatedRec\<rparr>) of
                  (st, diags') \<Rightarrow>
                    Inr (resp\<lparr>State := st,
                              Diagnostics := Append (Diagnostics resp) diags'\<rparr>, rs2))))"



text \<open>\<^verbatim>\<open>req.ProviderData\<close> is a Go \<^verbatim>\<open>any\<close>: the nil interface, an \<^verbatim>\<open>*loopia.API\<close> (itself
  possibly a nil pointer), or a value of another type, of which only the name that
  \<^verbatim>\<open>%T\<close> prints is read.\<close>

datatype 'w provider_data = NilInterface | LoopiaAPI "'w API option" | OtherType string

record 'w ConfigureRequest =
  ProviderData :: "'w provider_data"

record ConfigureResponse =
  cfg_Diagnostics :: Diagnostics

definition cfg_AddError :: "ConfigureResponse \<Rightarrow> string \<Rightarrow> string \<Rightarrow> ConfigureResponse" where
  "cfg_AddError resp summary detail =
     resp\<lparr>cfg_Diagnostics := AddError (cfg_Diagnostics resp) summary detail\<rparr>"

definition zoneRecordResource_Configure ::
  "'w zoneRecordResource \<Rightarrow> 'w ConfigureRequest \<Rightarrow> ConfigureResponse \<Rightarrow>
   'w zoneRecordResource \<times> ConfigureResponse" where
  "zoneRecordResource_Configure r req resp =
    (case ProviderData req of
       NilInterface \<Rightarrow> (r, resp)
     | OtherType T \<Rightarrow>
         (r, cfg_AddError resp ''Unexpected Resource Configure Type''
               (''Expected *loopia.API, got: '' @ T
                  @ ''. Please report this issue to the provider developers.''))
     | LoopiaAPI client \<Rightarrow> (r\<lparr>zr_client := client\<rparr>, resp))"

section \<open>The subdomain resource\<close>

record SubdomainResourceModel =
  sd_Domain :: "string attr_value"
  sd_Subdomain :: "string attr_value"

record 'w subdomainResource =
  sd_client :: "'w API option"

definition NewSubdomainResource :: "'w subdomainResource" where
  "NewSubdomainResource = \<lparr>sd_client = None\<rparr>"

definition subdomainResource_Create ::
  "'w subdomainResource \<Rightarrow> SubdomainResourceModel CreateRequest \<Rightarrow>
   SubdomainResourceModel Response \<Rightarrow> 'w remote \<Rightarrow>
   panic + (SubdomainResourceModel Response \<times> 'w remote)" where
  "subdomainResource_Create r req resp0 rs0 =
    (case cr_Plan req of (diags, plan) \<Rightarrow>
     let resp = resp0\<lparr>Diagnostics := Append (Diagnostics resp0) diags\<rparr> in
     if HasError (Diagnostics resp) then Inr (resp, rs0)
     else case sd_client r of
       None \<Rightarrow> Inl NilPointerDereference
     | Some api \<Rightarrow>
        let domain = ValueString (sd_Domain plan);
            subdomain = ValueString (sd_Subdomain plan)
        in case invoke (AddSubdomainCall domain subdomain)
                  (AddSubdomain api domain subdomain) rs0 of
          (Some err, rs1) \<Rightarrow>
            Inr (resp_AddError resp ''Error creating subdomain''
                   (''Could not create subdomain, unexpected error: '' @ err), rs1)
        | (None, rs1) \<Rightarrow>
           (case State_Set plan of
              (st, diags') \<Rightarrow>
                Inr (resp\<lparr>State := st,
                          Diagnostics := Append (Diagnostics resp) diags'\<rparr>, rs1)))"

text \<open>The loop of \<^verbatim>\<open>Read\<close> that sets \<^verbatim>\<open>found\<close>.\<close>

fun found_loop :: "loopia_Subdomain list \<Rightarrow> string \<Rightarrow> bool" where
  "found_loop [] name = False"
| "found_loop (subdomain # subdomains) name =
     (if Name subdomain = name then True else found_loop subdomains name)"

definition subdomainResource_Read ::
  "'w subdomainResource \<Rightarrow> SubdomainResourceModel ReadRequest \<Rightarrow>
   SubdomainResourceModel Response \<Rightarrow> 'w remote \<Rightarrow>
   panic + (SubdomainResourceModel Response \<times> 'w remote)" where
  "subdomainResource_Read r req resp0 rs0 =
    (case rr_State req of (diags, state) \<Rightarrow>
     let resp = resp0\<lparr>Diagnostics := Append (Diagnostics resp0) diags\<rparr> in
     if HasError (Diagnostics resp) then Inr (resp, rs0)
     else case sd_client r of
       None \<Rightarrow> Inl NilPointerDereference
     | Some api \<Rightarrow>
        let domain = ValueString (sd_Domain state)
        in case invoke (GetSubdomainsCall domain) (GetSubdomains api domain) rs0 of
          ((subdomains, Some err), rs1) \<Rightarrow>
            Inr (resp_AddError resp ''Unable to Read Subdomains'' err, rs1)
        | ((subdomains, None), rs1) \<Rightarrow>
           if \<not> found_loop subdomains (ValueString (sd_Subdomain state))
           then Inr (resp\<lparr>State := State_RemoveResource\<rparr>, rs1)
           else (case State_Set state of
                   (st, diags') \<Rightarrow> Inr (resp\<lparr>State := st\<rparr>, rs1)))"

definition subdomainResource_Update ::
  "'w subdomainResource \<Rightarrow> SubdomainResourceModel UpdateRequest \<Rightarrow>
   SubdomainResourceModel Response \<Rightarrow> 'w remote \<Rightarrow>
   panic + (SubdomainResourceModel Response \<times> 'w remote)" where
  "subdomainResource_Update r req resp0 rs0 = Inr (resp0, rs0)"

definition subdomainResource_Delete ::
  "'w subdomainResource \<Rightarrow> SubdomainResourceModel DeleteRequest \<Rightarrow>
   SubdomainResourceModel Response \<Rightarrow> 'w remote \<Rightarrow>
   panic + (SubdomainResourceModel Response \<times> 'w remote)" where
  "subdomainResource_Delete r req resp0 rs0 =
    (case dr_State req of (diags, state) \<Rightarrow>
     let resp = resp0\<lparr>Diagnostics := Append (Diagnostics resp0) diags\<rparr> in
     if HasError (Diagnostics resp) then Inr (resp, rs0)
     else case sd_client r of
       None \<Rightarrow> Inl NilPointerDereference
     | Some api \<Rightarrow>
        let domain = ValueString (sd_Domain state);
            subdomain = ValueString (sd_Subdomain state)
        in case invoke (RemoveSubDomainCall domain subdomain)
                  (RemoveSubDomain api domain subdomain) rs0 of
          (Some err, rs1) \<Rightarrow>
            Inr (resp_AddError resp ''Error Deleting Loopia Subdomain''
                   (''Could not delete subdomain, unexpected error: '' @ err), rs1)
        | (None, rs1) \<Rightarrow> Inr (resp, rs1))"

definition subdomainResource_Configure ::
  "'w subdomainResource \<Rightarrow> 'w ConfigureRequest \<Rightarrow> ConfigureResponse \<Rightarrow>
   'w subdomainResource \<times> ConfigureResponse" where
  "subdomainResource_Configure r req resp =
    (case ProviderData req of
       NilInterface \<Rightarrow> (r, resp)
     | OtherType T \<Rightarrow>
         (r, cfg_AddError resp ''Unexpected Data Source Configure Type''
               (''Expected *hashicups.Client, got: '' @ T
                  @ ''. Please report this issue to the provider developers.''))
     | LoopiaAPI client \<Rightarrow> (r\<lparr>sd_client := client\<rparr>, resp))"

section \<open>The data sources: \<^verbatim>\<open>Configure\<close>\<close>

record 'w DomainDataSource =
  dd_client :: "'w API option"

record 'w DomainsDataSource =
  ds_client :: "'w API option"

record 'w SubdomainsDataSource =
  sds_client :: "'w API option"

record 'w zoneRecordsDataSource =
  zrs_client :: "'w API option"

definition NewDomainDataSource :: "'w DomainDataSource" where
  "NewDomainDataSource = \<lparr>dd_client = None\<rparr>"

definition NewDomainsDataSource :: "'w DomainsDataSource" where
  "NewDomainsDataSource = \<lparr>ds_client = None\<rparr>"

definition NewSubdomainsDataSource :: "'w SubdomainsDataSource" where
  "NewSubdomainsDataSource = \<lparr>sds_client = None\<rparr>"

definition NewZoneRecordsDataSource :: "'w zoneRecordsDataSource" where
  "NewZoneRecordsDataSource = \<lparr>zrs_client = None\<rparr>"

definition unexpected_data_source_type :: "ConfigureResponse \<Rightarrow> string \<Rightarrow> ConfigureResponse" where
  "unexpected_data_source_type resp T =
     cfg_AddError resp ''Unexpected Data Source Configure Type''
       (''Expected *loopia.API, got: '' @ T
          @ ''. Please report this issue to the provider developers.'')"

definition DomainDataSource_Configure ::
  "'w DomainDataSource \<Rightarrow> 'w ConfigureRequest \<Rightarrow> ConfigureResponse \<Rightarrow>
   'w DomainDataSource \<times> ConfigureResponse" where
  "DomainDataSource_Configure d req resp =
    (case ProviderData req of
       NilInterface \<Rightarrow> (d, resp)
     | OtherType T \<Rightarrow> (d, unexpected_data_source_type resp T)
     | LoopiaAPI client \<Rightarrow> (d\<lparr>dd_client := client\<rparr>, resp))"

definition DomainsDataSource_Configure ::
  "'w DomainsDataSource \<Rightarrow> 'w ConfigureRequest \<Rightarrow> ConfigureResponse \<Rightarrow>
   'w DomainsDataSource \<times> ConfigureResponse" where
  "DomainsDataSource_Configure d req resp =
    (case ProviderData req of
       NilInterface \<Rightarrow> (d, resp)
     | OtherType T \<Rightarrow> (d, unexpected_data_source_type resp T)
     | LoopiaAPI client \<Rightarrow> (d\<lparr>ds_client := client\<rparr>, resp))"

definition SubdomainsDataSource_Configure ::
  "'w SubdomainsDataSource \<Rightarrow> 'w ConfigureRequest \<Rightarrow> ConfigureResponse \<Rightarrow>
   'w SubdomainsDataSource \<times> ConfigureResponse" where
  "SubdomainsDataSource_Configure d req resp =
    (case ProviderData req of
       NilInterface \<Rightarrow> (d, resp)
     | OtherType T \<Rightarrow> (d, unexpected_data_source_type resp T)
     | LoopiaAPI client \<Rightarrow> (d\<lparr>sds_client := client\<rparr>, resp))"

definition zoneRecordsDataSource_Configure ::
  "'w zoneRecordsDataSource \<Rightarrow> 'w ConfigureRequest \<Rightarrow> ConfigureResponse \<Rightarrow>
   'w zoneRecordsDataSource \<times> ConfigureResponse" where
  "zoneRecordsDataSource_Configure d req resp =
    (case ProviderData req of
       NilInterface \<Rightarrow> (d, resp)
     | OtherType T \<Rightarrow> (d, unexpected_data_source_type resp T)
     | LoopiaAPI client \<Rightarrow> (d\<lparr>zrs_client := client\<rparr>, resp))"

section \<open>The provider root\<close>

record loopiaProviderModel =
  Username :: "string attr_value"
  Password :: "string attr_value"

record provider_ConfigureRequest =
  Config :: "loopiaProviderModel decoded"

record 'w provider_ConfigureResponse =
  p_Diagnostics :: Diagnostics
  DataSourceData :: "'w provider_data"
  ResourceData :: "'w provider_data"

text \<open>The texts of the provider's diagnostics.\<close>

definition unknown_username_detail :: string where
  "unknown_username_detail =
     ''The provider cannot create the Loopia API client as there is an unknown configuration value for the Loopia API username. ''
     @ ''Either target apply the source of the value first, set the value statically in the configuration, or use the LOOPIA_USERNAME environment variable.''"

definition unknown_password_detail :: string where
  "unknown_password_detail =
     ''The provider cannot create the Loopia API client as there is an unknown configuration value for the Loopia API password. ''
     @ ''Either target apply the source of the value first, set the value statically in the configuration, or use the LOOPIA_PASSWORD environment variable.''"

definition missing_username_detail :: string where
  "missing_username_detail =
     ''The provider cannot create the Loopia API client as there is a missing or empty value for the Loopia API username. ''
     @ ''Set the username value in the configuration or use the LOOPIA_USERNAME environment variable. ''
     @ ''If either is already set, ensure the value is not empty.''"

definition missing_password_detail :: string where
  "missing_password_detail =
     ''The provider cannot create the Loopia API client as there is a missing or empty value for the Loopia API password. ''
     @ ''Set the password value in the configuration or use the LOOPIA_PASSWORD environment variable. ''
     @ ''If either is already set, ensure the value is not empty.''"

definition client_error_detail :: "error \<Rightarrow> string" where
  "client_error_detail err =
     ''An unexpected error occurred when creating the Loopia API client. ''
     @ ''If the error is not clear, please contact the provider developers.''
     @ [CHR 0x0A, CHR 0x0A] @ ''Loopia Client Error: '' @ err"

text \<open>
  \<^verbatim>\<open>LoopiaProvider.Configure\<close>. The environment is the function \<^verbatim>\<open>os.Getenv\<close> (the empty
  string for a variable that is not set) and \<^verbatim>\<open>loopia.New\<close> is the client library's
  constructor, both parameters. The calls of \<^verbatim>\<open>tflog\<close> write to the log only. Until the
  client is stored, the handler changes nothing of the response but its diagnostics, so
  its steps are functions of the diagnostics: the two checks for unknown values, the
  resolution of a credential, and the two checks for missing values.
\<close>

definition unknown_checks :: "loopiaProviderModel \<Rightarrow> Diagnostics \<Rightarrow> Diagnostics" where
  "unknown_checks config ds =
     (let ds1 = (if IsUnknown (Username config)
                 then AddAttributeError ds ''username'' ''Unknown Loopia API Username''
                        unknown_username_detail
                 else ds)
      in if IsUnknown (Password config)
         then AddAttributeError ds1 ''password'' ''Unknown Loopia API Password''
                unknown_password_detail
         else ds1)"

definition resolve :: "(string \<Rightarrow> string) \<Rightarrow> string \<Rightarrow> string attr_value \<Rightarrow> string" where
  "resolve Getenv name v = (if \<not> IsNull v then ValueString v else Getenv name)"

definition missing_checks :: "string \<Rightarrow> string \<Rightarrow> Diagnostics \<Rightarrow> Diagnostics" where
  "missing_checks username password ds =
     (let ds1 = (if username = []
                 then AddAttributeError ds ''username'' ''Missing Loopia API Username''
                        missing_username_detail
                 else ds)
      in if password = []
         then AddAttributeError ds1 ''password'' ''Missing Loopia API Password''
                missing_password_detail
         else ds1)"

definition LoopiaProvider_Configure ::
  "(string \<Rightarrow> string) \<Rightarrow> (string \<Rightarrow> string \<Rightarrow> 'w API option \<times> error option) \<Rightarrow>
   provider_ConfigureRequest \<Rightarrow> 'w provider_ConfigureResponse \<Rightarrow>
   'w provider_ConfigureResponse" where
  "LoopiaProvider_Configure Getenv loopia_New req resp =
    (case Config req of (diags, config) \<Rightarrow>
     let ds1 = Append (p_Diagnostics resp) diags in
     if HasError ds1 then resp\<lparr>p_Diagnostics := ds1\<rparr>
     else
      let ds2 = unknown_checks config ds1 in
      if HasError ds2 then resp\<lparr>p_Diagnostics := ds2\<rparr>
      else
       let username = resolve Getenv ''LOOPIA_USERNAME'' (Username config);
           password = resolve Getenv ''LOOPIA_PASSWORD'' (Password config);
           ds3 = missing_checks username password ds2
       in if HasError ds3 then resp\<lparr>p_Diagnostics := ds3\<rparr>
       else case loopia_New username password of
          (client, Some err) \<Rightarrow>
            resp\<lparr>p_Diagnostics := AddError ds3 ''Unable to Create Loopia API Client''
                                     (client_error_detail err)\<rparr>
        | (client, None) \<Rightarrow>
            resp\<lparr>p_Diagnostics := ds3,
                 DataSourceData := LoopiaAPI client, ResourceData := LoopiaAPI client\<rparr>)"

section \<open>An in-memory client\<close>

text \<open>
  A small client that keeps the zone records and the subdomain names of one zone in
  memory and numbers new records itself. The theorems below hold for every client; this
  one runs the adapters on concrete inputs.
\<close>

record memory =
  records :: "loopia_Record list"
  subdomains :: "string list"
  next_id :: int64

fun lookup_record :: "int64 \<Rightarrow> loopia_Record list \<Rightarrow> loopia_Record option" where
  "lookup_record i [] = None"
| "lookup_record i (r # rs) = (if ID r = i then Some r else lookup_record i rs)"

fun replace_record :: "loopia_Record \<Rightarrow> loopia_Record list \<Rightarrow> loopia_Record list" where
  "replace_record new [] = []"
| "replace_record new (r # rs) = (if ID r = ID new then new else r) # replace_record new rs"

fun remove_record :: "int64 \<Rightarrow> loopia_Record list \<Rightarrow> loopia_Record list" where
  "remove_record i [] = []"
| "remove_record i (r # rs) = (if ID r = i then remove_record i rs else r # remove_record i rs)"

fun subdomain_list :: "string list \<Rightarrow> loopia_Subdomain list" where
  "subdomain_list [] = []"
| "subdomain_list (n # ns) = \<lparr>Name = n\<rparr> # subdomain_list ns"

definition mem_AddZoneRecord :: "string \<Rightarrow> string \<Rightarrow> loopia_Record \<Rightarrow> memory \<Rightarrow> error option \<times> memory" where
  "mem_AddZoneRecord d s rec w =
     (None, w\<lparr>records := records w @ [rec\<lparr>ID := next_id w\<rparr>], next_id := next_id w + 1\<rparr>)"

definition mem_GetZoneRecords ::
  "string \<Rightarrow> string \<Rightarrow> memory \<Rightarrow> (loopia_Record list \<times> error option) \<times> memory" where
  "mem_GetZoneRecords d s w = ((records w, None), w)"

definition mem_GetZoneRecord ::
  "string \<Rightarrow> string \<Rightarrow> int64 \<Rightarrow> memory \<Rightarrow> (loopia_Record option \<times> error option) \<times> memory" where
  "mem_GetZoneRecord d s i w =
     (case lookup_record i (records w) of
        None \<Rightarrow> ((None, Some ''zone record not found''), w)
      | Some r \<Rightarrow> ((Some r, None), w))"

definition mem_UpdateZoneRecord ::
  "string \<Rightarrow> string \<Rightarrow> loopia_Record \<Rightarrow> memory \<Rightarrow> error option \<times> memory" where
  "mem_UpdateZoneRecord d s rec w =
     (case lookup_record (ID rec) (records w) of
        None \<Rightarrow> (Some ''zone record not found'', w)
      | Some r \<Rightarrow> (None, w\<lparr>records := replace_record rec (records w)\<rparr>))"

definition mem_RemoveZoneRecord ::
  "string \<Rightarrow> string \<Rightarrow> int64 \<Rightarrow> memory \<Rightarrow> error option \<times> memory" where
  "mem_RemoveZoneRecord d s i w =
     (case lookup_record i (records w) of
        None \<Rightarrow> (Some ''zone record not found'', w)
      | Some r \<Rightarrow> (None, w\<lparr>records := remove_record i (records w)\<rparr>))"

definition mem_AddSubdomain :: "string \<Rightarrow> string \<Rightarrow> memory \<Rightarrow> error option \<times> memory" where
  "mem_AddSubdomain d s w = (None, w\<lparr>subdomains := subdomains w @ [s]\<rparr>)"

definition mem_GetSubdomains ::
  "string \<Rightarrow> memory \<Rightarrow> (loopia_Subdomain list \<times> error option) \<times> memory" where
  "mem_GetSubdomains d w = ((subdomain_list (subdomains w), None), w)"

definition mem_RemoveSubDomain :: "string \<Rightarrow> string \<Rightarrow> memory \<Rightarrow> error option \<times> memory" where
  "mem_RemoveSubDomain d s w = (None, w\<lparr>subdomains := removeAll s (subdomains w)\<rparr>)"

definition mem_API :: "memory API" where
  "mem_API =
     \<lparr>AddZoneRecord = mem_AddZoneRecord,
      GetZoneRecords = mem_GetZoneRecords,
      GetZoneRecord = mem_GetZoneRecord,
      UpdateZoneRecord = mem_UpdateZoneRecord,
      RemoveZoneRecord = mem_RemoveZoneRecord,
      AddSubdomain = mem_AddSubdomain,
      GetSubdomains = mem_GetSubdomains,
      RemoveSubDomain = mem_RemoveSubDomain\<rparr>"

section \<open>Concrete inputs\<close>

text \<open>A plan for an address record without priority, the client record with the same
  values under a given identifier, and a zone that already holds such a record.\<close>

definition example_plan :: ZoneRecordResourceModel where
  "example_plan =
     \<lparr>zr_Domain = Known ''example.com'', zr_Subdomain = Known ''www'',
      zr_Record = \<lparr>m_Type = Known ''A'', m_Ttl = Known 3600, m_Priority = Null,
                   m_Value = Known ''192.0.2.1'', m_RecordId = Unknown\<rparr>\<rparr>"

definition example_record :: "int64 \<Rightarrow> loopia_Record" where
  "example_record i = \<lparr>ID = i, TTL = 3600, Type = ''A'', Value = ''192.0.2.1'', Priority = 0\<rparr>"

definition example_memory :: memory where
  "example_memory = \<lparr>records = [example_record 7], subdomains = [''www''], next_id = 8\<rparr>"

text \<open>The state that holds the record with a given identifier, a plan that changes the
  value, and the record of identifier 7 after that change.\<close>

definition example_state :: "int64 \<Rightarrow> ZoneRecordResourceModel" where
  "example_state i = example_plan\<lparr>zr_Record := recordModelFromClient (example_record i)\<rparr>"

definition example_change :: ZoneRecordResourceModel where
  "example_change =
     \<lparr>zr_Domain = Known ''example.com'', zr_Subdomain = Known ''www'',
      zr_Record = \<lparr>m_Type = Known ''A'', m_Ttl = Known 3600, m_Priority = Null,
                   m_Value = Known ''192.0.2.2'', m_RecordId = Unknown\<rparr>\<rparr>"

definition example_updated :: loopia_Record where
  "example_updated = \<lparr>ID = 7, TTL = 3600, Type = ''A'', Value = ''192.0.2.2'', Priority = 0\<rparr>"

text \<open>A planned record with neither TTL nor priority.\<close>

definition example_null_plan :: recordModel where
  "example_null_plan =
     \<lparr>m_Type = Known ''A'', m_Ttl = Null, m_Priority = Null,
      m_Value = Known ''192.0.2.1'', m_RecordId = Unknown\<rparr>"

text \<open>A zone with a record whose identifier is \<open>2 ^ 32 + 5\<close> beside a mail record of
  identifier 5.\<close>

definition example_other :: loopia_Record where
  "example_other =
     \<lparr>ID = 5, TTL = 300, Type = ''MX'', Value = ''mail.example.com'', Priority = 10\<rparr>"


text \<open>A subdomain, two environments, a constructor that knows one account, and the
  provider's response before \<^verbatim>\<open>Configure\<close>.\<close>

definition example_subdomain :: SubdomainResourceModel where
  "example_subdomain = \<lparr>sd_Domain = Known ''example.com'', sd_Subdomain = Known ''shop''\<rparr>"

definition example_env :: "string \<Rightarrow> string" where
  "example_env name =
     (if name = ''LOOPIA_USERNAME'' then ''env-user''
      else if name = ''LOOPIA_PASSWORD'' then ''env-secret'' else [])"

definition empty_env :: "string \<Rightarrow> string" where
  "empty_env name = []"

definition example_New :: "string \<Rightarrow> string \<Rightarrow> memory API option \<times> error option" where
  "example_New username password =
     (if username = ''env-user'' \<and> password = ''env-secret'' then (Some mem_API, None)
      else (None, Some (''unknown user '' @ username)))"

definition example_response :: "memory provider_ConfigureResponse" where
  "example_response =
     \<lparr>p_Diagnostics = [], DataSourceData = NilInterface, ResourceData = NilInterface\<rparr>"

text \<open>A client whose service stores every new record with a TTL of 300.\<close>

definition normalising_AddZoneRecord ::
  "string \<Rightarrow> string \<Rightarrow> loopia_Record \<Rightarrow> memory \<Rightarrow> error option \<times> memory" where
  "normalising_AddZoneRecord d s rec w = mem_AddZoneRecord d s (rec\<lparr>TTL := 300\<rparr>) w"

definition normalising_API :: "memory API" where
  "normalising_API = mem_API\<lparr>AddZoneRecord := normalising_AddZoneRecord\<rparr>"



text \<open>A zone that holds the mail record and numbers its next record \<open>2 ^ 32 + 5\<close>; an
  address record of priority 10 and the zone that holds it; the plan with neither TTL
  nor priority.\<close>

definition example_fresh_large_memory :: memory where
  "example_fresh_large_memory =
     \<lparr>records = [example_other], subdomains = [''www''], next_id = 4294967301\<rparr>"

definition example_priority_record :: loopia_Record where
  "example_priority_record =
     \<lparr>ID = 5, TTL = 0, Type = ''A'', Value = ''192.0.2.1'', Priority = 10\<rparr>"

definition example_null :: ZoneRecordResourceModel where
  "example_null = example_plan\<lparr>zr_Record := example_null_plan\<rparr>"

definition example_priority_memory :: memory where
  "example_priority_memory =
     \<lparr>records = [example_priority_record], subdomains = [''www''], next_id = 8\<rparr>"

section \<open>Auxiliary facts\<close>

lemma HasError_iff: "HasError ds \<longleftrightarrow> (\<exists>d \<in> set ds. Severity d = SeverityError)"
  by (induction ds) auto

lemma Append_single: "Append ds [d] = (if d \<in> set ds then ds else ds @ [d])"
  by simp

lemma Append_fresh_error:
  "\<not> HasError ds \<Longrightarrow> Severity d = SeverityError \<Longrightarrow> Append ds [d] = ds @ [d]"
  by (auto simp add: HasError_iff)

lemma Severity_NewErrorDiagnostic [simp]:
  "Severity (NewErrorDiagnostic summary detail) = SeverityError"
  by (simp add: NewErrorDiagnostic_def)

lemma Severity_NewAttributeErrorDiagnostic [simp]:
  "Severity (NewAttributeErrorDiagnostic root summary detail) = SeverityError"
  by (simp add: NewAttributeErrorDiagnostic_def)

lemma AddError_fresh:
  "\<not> HasError ds \<Longrightarrow> AddError ds summary detail = ds @ [NewErrorDiagnostic summary detail]"
  unfolding AddError_def by (rule Append_fresh_error) simp_all

lemma AddAttributeError_fresh:
  "\<not> HasError ds \<Longrightarrow>
   AddAttributeError ds root summary detail = ds @ [NewAttributeErrorDiagnostic root summary detail]"
  unfolding AddAttributeError_def by (rule Append_fresh_error) simp_all

lemma HasError_AddError: "HasError (AddError ds summary detail)"
  unfolding AddError_def HasError_iff Append_single
  by (cases "NewErrorDiagnostic summary detail \<in> set ds") (auto intro: bexI [where x = "NewErrorDiagnostic summary detail"])

lemma HasError_snoc_error: "HasError (ds @ [NewErrorDiagnostic summary detail])"
  by (simp add: HasError_iff NewErrorDiagnostic_def)

lemma createdRecord_loop_find:
  "createdRecord_loop listing p = find (\<lambda>rec. recordsMatch rec p) listing"
  by (induction listing) simp_all

lemma found_loop_iff: "found_loop subs n \<longleftrightarrow> n \<in> Name ` set subs"
  by (induction subs) auto

lemma invoke_eq:
  "f (world rs) = (res, w) \<Longrightarrow> invoke c f rs = (res, \<lparr>world = w, calls = calls rs @ [c]\<rparr>)"
  by (simp add: invoke_def)

lemma recordsMatch_submitted:
  "recordsMatch rec p \<longleftrightarrow>
     (Type rec, Value rec, TTL rec, Priority rec) =
     (Type (toClientRecord p), Value (toClientRecord p),
      TTL (toClientRecord p), Priority (toClientRecord p))"
  by (simp add: recordsMatch_def toClientRecord_def)

lemma Create_listed:
  assumes "cr_Plan req = (diags, plan)"
    and "\<not> HasError (Append (Diagnostics resp) diags)"
    and "zr_client r = Some api"
    and "AddZoneRecord api (ValueString (zr_Domain plan)) (ValueString (zr_Subdomain plan))
           (toClientRecord (zr_Record plan)) (world rs) = (None, w1)"
    and "GetZoneRecords api (ValueString (zr_Domain plan)) (ValueString (zr_Subdomain plan)) w1
           = ((listing, None), w2)"
  shows "zoneRecordResource_Create r req resp rs =
     Inr (case createdRecord_loop listing (zr_Record plan) of
            None \<Rightarrow> resp\<lparr>Diagnostics := Append (Diagnostics resp) diags @
                       [NewErrorDiagnostic ''Unable to Identify Created Record''
                          ''Could not find the newly created record in the API response.'']\<rparr>
          | Some rec \<Rightarrow> resp\<lparr>State := Some (plan\<lparr>zr_Record := recordModelFromClient rec\<rparr>),
                             Diagnostics := Append (Diagnostics resp) diags\<rparr>,
          \<lparr>world = w2, calls = calls rs @
             [AddZoneRecordCall (ValueString (zr_Domain plan)) (ValueString (zr_Subdomain plan))
                (toClientRecord (zr_Record plan)),
              GetZoneRecordsCall (ValueString (zr_Domain plan)) (ValueString (zr_Subdomain plan))]\<rparr>)"
  using assms
  by (simp add: zoneRecordResource_Create_def Let_def invoke_eq resp_AddError_def AddError_fresh
      State_Set_def split: option.splits)


lemma find_filter_conv:
  "find P xs = (case filter P xs of [] \<Rightarrow> None | x # ys \<Rightarrow> Some x)"
  by (induction xs) simp_all

lemma sint_scast_ucast_32:
  "sint (scast (ucast (x::64 word) :: 32 word) :: 64 word) = signed_take_bit 31 (sint x)"
proof -
  have "sint (scast (ucast x :: 32 word) :: 64 word) = sint (ucast x :: 32 word)"
    by (simp add: sint_up_scast is_up)
  also have "\<dots> = signed_take_bit 31 (uint (ucast x :: 32 word))"
    by (simp add: sint_uint)
  also have "\<dots> = signed_take_bit 31 (take_bit 32 (uint x))"
    by (simp add: unsigned_ucast_eq)
  also have "\<dots> = signed_take_bit 31 (uint x)"
    by (simp add: signed_take_bit_take_bit)
  also have "\<dots> = signed_take_bit 31 (signed_take_bit 63 (uint x))"
    by (simp add: signed_take_bit_signed_take_bit)
  also have "\<dots> = signed_take_bit 31 (sint x)"
    by (simp add: sint_uint)
  finally show ?thesis .
qed

lemma scast_ucast_32_iff:
  "(scast (ucast (x::64 word) :: 32 word) :: 64 word) = x \<longleftrightarrow> fits_int32 x"
proof -
  have "(scast (ucast x :: 32 word) :: 64 word) = x
      \<longleftrightarrow> sint (scast (ucast x :: 32 word) :: 64 word) = sint x"
    by (rule word_eq_iff_signed [where 'a = int])
  also have "\<dots> \<longleftrightarrow> signed_take_bit 31 (sint x) = sint x"
    by (simp only: sint_scast_ucast_32)
  also have "\<dots> \<longleftrightarrow> fits_int32 x"
    by (simp add: signed_take_bit_int_eq_self_iff fits_int32_def)
  finally show ?thesis .
qed

lemma ucast_scast_32: "(ucast (scast (n::32 word) :: 64 word) :: 32 word) = n"
  by (rule bit_word_eqI) (auto simp add: bit_simps)

lemma uint_ucast_32: "uint (ucast (x::64 word) :: 32 word) = uint x mod 2 ^ 32"
  by (simp add: unsigned_ucast_eq take_bit_eq_mod)




lemma roundtrip_strings:
  "Type (toClientRecord (recordModelFromClient rec)) = Type rec"
  "Value (toClientRecord (recordModelFromClient rec)) = Value rec"
  by (simp_all add: toClientRecord_def recordModelFromClient_def)


lemma Read_fetch_failed:
  assumes "rr_State req = (diags, state)"
    and "\<not> HasError (Append (Diagnostics resp) diags)"
    and "zr_client r = Some api"
    and "GetZoneRecord api (ValueString (zr_Domain state)) (ValueString (zr_Subdomain state))
           (int64_of_int32 (ValueInt32 (m_RecordId (zr_Record state)))) (world rs)
         = ((rec, Some err), w1)"
  shows "zoneRecordResource_Read r req resp rs =
     Inr (resp\<lparr>Diagnostics := Append (Diagnostics resp) diags @
            [NewErrorDiagnostic ''Error Reading Zone Record''
               (''Could not read zone record ID ''
                  @ Sprintf_d ((ValueInt32 (m_RecordId (zr_Record state))))
                  @ '': '' @ err)]\<rparr>,
          \<lparr>world = w1, calls = calls rs @
             [GetZoneRecordCall (ValueString (zr_Domain state)) (ValueString (zr_Subdomain state))
                (int64_of_int32 (ValueInt32 (m_RecordId (zr_Record state))))]\<rparr>)"
  using assms
  by (simp add: zoneRecordResource_Read_def Let_def invoke_eq resp_AddError_def AddError_fresh
      split: option.splits)

lemma Read_keeps_or_sets_state:
  assumes "zoneRecordResource_Read r req resp rs = Inr (resp', rs')"
  shows "State resp' = State resp \<or> (\<exists>m. State resp' = Some m)"
  using assms
  by (auto simp add: zoneRecordResource_Read_def Let_def invoke_def resp_AddError_def
      State_Set_def split: prod.splits if_splits option.splits)









lemmas example_defs = example_plan_def example_record_def example_memory_def example_state_def
  example_change_def example_updated_def

lemmas conv_defs = toClientRecord_def recordModelFromClient_def recordsMatch_def
  int64_of_int32_def int_of_int32_def int32_of_int_def int32_of_int64_def

lemmas mem_defs = mem_API_def mem_AddZoneRecord_def mem_GetZoneRecords_def mem_GetZoneRecord_def
  mem_UpdateZoneRecord_def mem_RemoveZoneRecord_def mem_AddSubdomain_def mem_GetSubdomains_def
  mem_RemoveSubDomain_def


lemma subdomain_Read_listed:
  assumes "rr_State req = (diags, state)"
    and "\<not> HasError (Append (Diagnostics resp) diags)"
    and "sd_client r = Some api"
    and "GetSubdomains api (ValueString (sd_Domain state)) (world rs) = ((listing, None), w1)"
  shows "subdomainResource_Read r req resp rs =
     Inr (if ValueString (sd_Subdomain state) \<in> Name ` set listing
          then resp\<lparr>State := Some state, Diagnostics := Append (Diagnostics resp) diags\<rparr>
          else resp\<lparr>State := None, Diagnostics := Append (Diagnostics resp) diags\<rparr>,
          \<lparr>world = w1, calls = calls rs @ [GetSubdomainsCall (ValueString (sd_Domain state))]\<rparr>)"
  using assms
  by (simp add: subdomainResource_Read_def Let_def invoke_eq found_loop_iff State_Set_def
      State_RemoveResource_def)

lemma subdomain_Create_added:
  assumes "cr_Plan req = (diags, plan)"
    and "\<not> HasError (Append (Diagnostics resp) diags)"
    and "sd_client r = Some api"
    and "AddSubdomain api (ValueString (sd_Domain plan)) (ValueString (sd_Subdomain plan)) (world rs)
           = (None, w1)"
  shows "subdomainResource_Create r req resp rs =
     Inr (resp\<lparr>State := Some plan, Diagnostics := Append (Diagnostics resp) diags\<rparr>,
          \<lparr>world = w1, calls = calls rs @
             [AddSubdomainCall (ValueString (sd_Domain plan)) (ValueString (sd_Subdomain plan))]\<rparr>)"
  using assms
  by (simp add: subdomainResource_Create_def Let_def invoke_eq State_Set_def)

lemma attribute_diagnostics_differ:
  "NewAttributeErrorDiagnostic ''password'' s1 d1 \<noteq> NewAttributeErrorDiagnostic ''username'' s2 d2"
  by (simp add: NewAttributeErrorDiagnostic_def)

lemma not_HasError_notin:
  "\<not> HasError ds \<Longrightarrow> Severity d = SeverityError \<Longrightarrow> d \<notin> set ds"
  by (auto simp add: HasError_iff)

lemma AddAttributeError_second:
  "\<not> HasError ds \<Longrightarrow>
   AddAttributeError (ds @ [NewAttributeErrorDiagnostic ''username'' s2 d2]) ''password'' s1 d1
     = ds @ [NewAttributeErrorDiagnostic ''username'' s2 d2,
             NewAttributeErrorDiagnostic ''password'' s1 d1]"
  by (simp add: AddAttributeError_def attribute_diagnostics_differ not_HasError_notin)

lemma HasError_append: "HasError (xs @ ys) \<longleftrightarrow> HasError xs \<or> HasError ys"
  by (induction xs) auto

lemma unknown_checks_eq:
  "\<not> HasError ds \<Longrightarrow>
   unknown_checks config ds = ds @
     (if IsUnknown (Username config)
      then [NewAttributeErrorDiagnostic ''username'' ''Unknown Loopia API Username''
              unknown_username_detail] else []) @
     (if IsUnknown (Password config)
      then [NewAttributeErrorDiagnostic ''password'' ''Unknown Loopia API Password''
              unknown_password_detail] else [])"
  by (simp add: unknown_checks_def AddAttributeError_fresh AddAttributeError_second)

lemma missing_checks_eq:
  "\<not> HasError ds \<Longrightarrow>
   missing_checks username password ds = ds @
     (if username = []
      then [NewAttributeErrorDiagnostic ''username'' ''Missing Loopia API Username''
              missing_username_detail] else []) @
     (if password = []
      then [NewAttributeErrorDiagnostic ''password'' ''Missing Loopia API Password''
              missing_password_detail] else [])"
  by (simp add: missing_checks_def AddAttributeError_fresh AddAttributeError_second)

lemma HasError_unknown_checks:
  "\<not> HasError ds \<Longrightarrow>
   HasError (unknown_checks config ds) \<longleftrightarrow> IsUnknown (Username config) \<or> IsUnknown (Password config)"
  by (simp add: unknown_checks_eq HasError_append)

lemma HasError_missing_checks:
  "\<not> HasError ds \<Longrightarrow>
   HasError (missing_checks username password ds) \<longleftrightarrow> username = [] \<or> password = []"
  by (simp add: missing_checks_eq HasError_append)

lemmas configure_defs = zoneRecordResource_Configure_def subdomainResource_Configure_def
  DomainDataSource_Configure_def DomainsDataSource_Configure_def
  SubdomainsDataSource_Configure_def zoneRecordsDataSource_Configure_def

lemmas new_defs = NewZoneRecordResource_def NewSubdomainResource_def NewDomainDataSource_def
  NewDomainsDataSource_def NewSubdomainsDataSource_def NewZoneRecordsDataSource_def

lemma HasError_cfg_AddError: "HasError (cfg_Diagnostics (cfg_AddError resp summary detail))"
  by (simp add: cfg_AddError_def HasError_AddError)

lemma HasError_unexpected: "HasError (cfg_Diagnostics (unexpected_data_source_type resp T))"
  by (simp add: unexpected_data_source_type_def HasError_cfg_AddError)

lemma recordModelFromClient_fields:
  "recordModelFromClient rec =
     \<lparr>m_Type = Known (Type rec), m_Ttl = Known (ucast (TTL rec)),
      m_Priority = Known (ucast (Priority rec)), m_Value = Known (Value rec),
      m_RecordId = Known (ucast (ID rec))\<rparr>"
  by (simp add: recordModelFromClient_def int32_of_int_def int32_of_int64_def)

lemma toClientRecord_fields:
  "toClientRecord m =
     \<lparr>ID = scast (ValueInt32 (m_RecordId m)), TTL = scast (ValueInt32 (m_Ttl m)),
      Type = ValueString (m_Type m), Value = ValueString (m_Value m),
      Priority = scast (ValueInt32 (m_Priority m))\<rparr>"
  by (simp add: toClientRecord_def int64_of_int32_def int_of_int32_def)

lemma NewErrorDiagnostic_fields:
  "NewErrorDiagnostic summary detail =
     \<lparr>Severity = SeverityError, Summary = summary, Detail = detail, Path = None\<rparr>"
  by (simp add: NewErrorDiagnostic_def)

lemma scast_ucast_32_bounds:
  "(scast (ucast (x::64 word) :: 32 word) :: 64 word) = x
     \<longleftrightarrow> - (2 ^ 31) \<le> sint x \<and> sint x < 2 ^ 31"
  using scast_ucast_32_iff [of x] by (simp add: fits_int32_def)

lemma scast_ucast_scast: "(scast (ucast (scast (n::32 word) :: 64 word) :: 32 word) :: 64 word) = scast n"
  by (simp add: ucast_scast_32)

lemma Create_explicit:
  assumes "cr_Plan req = (diags, plan)"
    and "\<not> HasError (Append (Diagnostics resp) diags)"
    and "zr_client r = Some api"
    and "sub = \<lparr>ID = scast (ValueInt32 (m_RecordId (zr_Record plan))),
                 TTL = scast (ValueInt32 (m_Ttl (zr_Record plan))),
                 Type = ValueString (m_Type (zr_Record plan)),
                 Value = ValueString (m_Value (zr_Record plan)),
                 Priority = scast (ValueInt32 (m_Priority (zr_Record plan)))\<rparr>"
    and "AddZoneRecord api (ValueString (zr_Domain plan)) (ValueString (zr_Subdomain plan))
           sub (world rs) = (None, w1)"
    and "GetZoneRecords api (ValueString (zr_Domain plan)) (ValueString (zr_Subdomain plan)) w1
           = ((listing, None), w2)"
  shows "zoneRecordResource_Create r req resp rs =
     Inr (case find (\<lambda>rec. Type rec = Type sub \<and> Value rec = Value sub \<and>
                          TTL rec = TTL sub \<and> Priority rec = Priority sub) listing of
            None \<Rightarrow>
              resp\<lparr>Diagnostics := Append (Diagnostics resp) diags @
                [\<lparr>Severity = SeverityError, Summary = ''Unable to Identify Created Record'',
                  Detail = ''Could not find the newly created record in the API response.'',
                  Path = None\<rparr>]\<rparr>
          | Some rec \<Rightarrow>
              resp\<lparr>State := Some (plan\<lparr>zr_Record :=
                       \<lparr>m_Type = Known (Type rec), m_Ttl = Known (ucast (TTL rec)),
                        m_Priority = Known (ucast (Priority rec)), m_Value = Known (Value rec),
                        m_RecordId = Known (ucast (ID rec))\<rparr>\<rparr>),
                    Diagnostics := Append (Diagnostics resp) diags\<rparr>,
          \<lparr>world = w2, calls = calls rs @
             [AddZoneRecordCall (ValueString (zr_Domain plan)) (ValueString (zr_Subdomain plan)) sub,
              GetZoneRecordsCall (ValueString (zr_Domain plan)) (ValueString (zr_Subdomain plan))]\<rparr>)"
proof -
  have sub: "toClientRecord (zr_Record plan) = sub"
    by (simp only: toClientRecord_fields assms(4))
  have loop: "createdRecord_loop listing (zr_Record plan)
      = find (\<lambda>rec. Type rec = Type sub \<and> Value rec = Value sub \<and>
                     TTL rec = TTL sub \<and> Priority rec = Priority sub) listing"
    by (simp add: createdRecord_loop_find recordsMatch_submitted sub)
  show ?thesis
    using Create_listed [OF assms(1-3), unfolded sub, OF assms(5,6)]
    by (simp only: loop recordModelFromClient_fields NewErrorDiagnostic_fields)
qed

lemma find_SomeD: "find P xs = Some x \<Longrightarrow> P x \<and> x \<in> set xs"
  by (induction xs) (auto split: if_splits)

lemma find_None_iff_all: "find P xs = None \<longleftrightarrow> (\<forall>x \<in> set xs. \<not> P x)"
  by (induction xs) auto

lemma uint_ucast_32_mod: "uint (ucast (x::64 word) :: 32 word) = uint x mod 2 ^ 32"
  by (rule uint_ucast_32)


lemmas run_defs = zoneRecordResource_Create_def zoneRecordResource_Update_def Let_def invoke_def
  State_Set_def resp_AddError_def AddError_def

lemma example_submitted_fields:
  "example_record 0 =
     \<lparr>ID = scast (ValueInt32 (m_RecordId (zr_Record example_plan))),
      TTL = scast (ValueInt32 (m_Ttl (zr_Record example_plan))),
      Type = ValueString (m_Type (zr_Record example_plan)),
      Value = ValueString (m_Value (zr_Record example_plan)),
      Priority = scast (ValueInt32 (m_Priority (zr_Record example_plan)))\<rparr>"
  by (simp add: example_defs)



section \<open>The claims\<close>

subsection \<open>C1\<close>

text \<open>
  C1 (as amended). When the listing fetched after the creation holds two or more records
  whose type, value, TTL and priority equal the submitted ones, \<^verbatim>\<open>Create\<close> reports no
  error and takes the first of them in listing order: the state's record holds that
  record's type and value, its TTL and priority (both read back exactly), and as
  identifier that record's identifier cut to 32 bits, which is the identifier modulo
  \<open>2 ^ 32\<close> and reads back as the identifier itself exactly when that is representable
  as a signed 32-bit integer. The loop stops at the first match and never looks for a
  second one.
\<close>

theorem zone_record_create_duplicates_first_wins:
  assumes "cr_Plan req = (diags, plan)"
    and "\<not> HasError (Append (Diagnostics resp) diags)"
    and "zr_client r = Some api"
    and "sub = \<lparr>ID = scast (ValueInt32 (m_RecordId (zr_Record plan))),
                 TTL = scast (ValueInt32 (m_Ttl (zr_Record plan))),
                 Type = ValueString (m_Type (zr_Record plan)),
                 Value = ValueString (m_Value (zr_Record plan)),
                 Priority = scast (ValueInt32 (m_Priority (zr_Record plan)))\<rparr>"
    and "AddZoneRecord api (ValueString (zr_Domain plan)) (ValueString (zr_Subdomain plan))
           sub (world rs) = (None, w1)"
    and "GetZoneRecords api (ValueString (zr_Domain plan)) (ValueString (zr_Subdomain plan)) w1
           = ((listing, None), w2)"
    and "same_tuple = (\<lambda>rec. (Type rec, Value rec, TTL rec, Priority rec) =
                              (Type sub, Value sub, TTL sub, Priority sub))"
    and "2 \<le> length (filter same_tuple listing)"
  shows "\<exists>first others.
     filter same_tuple listing = first # others \<and>
     zoneRecordResource_Create r req resp rs =
       Inr (resp\<lparr>State := Some (plan\<lparr>zr_Record :=
                       \<lparr>m_Type = Known (Type first), m_Ttl = Known (ucast (TTL first)),
                        m_Priority = Known (ucast (Priority first)),
                        m_Value = Known (Value first),
                        m_RecordId = Known (ucast (ID first))\<rparr>\<rparr>),
                 Diagnostics := Append (Diagnostics resp) diags\<rparr>,
            \<lparr>world = w2, calls = calls rs @
               [AddZoneRecordCall (ValueString (zr_Domain plan)) (ValueString (zr_Subdomain plan))
                  sub,
                GetZoneRecordsCall (ValueString (zr_Domain plan))
                  (ValueString (zr_Subdomain plan))]\<rparr>) \<and>
     \<not> HasError (Append (Diagnostics resp) diags) \<and>
     (scast (ucast (TTL first) :: 32 word) :: 64 word) = TTL first \<and>
     (scast (ucast (Priority first) :: 32 word) :: 64 word) = Priority first \<and>
     uint (ucast (ID first) :: 32 word) = uint (ID first) mod 2 ^ 32 \<and>
     ((scast (ucast (ID first) :: 32 word) :: 64 word) = ID first
        \<longleftrightarrow> - (2 ^ 31) \<le> sint (ID first) \<and> sint (ID first) < 2 ^ 31)"
proof -
  have P: "same_tuple = (\<lambda>rec. Type rec = Type sub \<and> Value rec = Value sub \<and>
                          TTL rec = TTL sub \<and> Priority rec = Priority sub)"
    by (simp add: assms(7))
  obtain first others where f: "filter same_tuple listing = first # others"
    using assms(8) by (cases "filter same_tuple listing") auto
  have found: "find same_tuple listing = Some first"
    by (subst find_filter_conv) (simp only: f list.case)
  from find_SomeD [OF found] have "TTL first = TTL sub" "Priority first = Priority sub"
    by (simp_all add: P)
  then have fields: "(scast (ucast (TTL first) :: 32 word) :: 64 word) = TTL first"
    "(scast (ucast (Priority first) :: 32 word) :: 64 word) = Priority first"
    by (simp_all add: assms(4) scast_ucast_scast)
  have "zoneRecordResource_Create r req resp rs =
       Inr (resp\<lparr>State := Some (plan\<lparr>zr_Record :=
                       \<lparr>m_Type = Known (Type first), m_Ttl = Known (ucast (TTL first)),
                        m_Priority = Known (ucast (Priority first)),
                        m_Value = Known (Value first),
                        m_RecordId = Known (ucast (ID first))\<rparr>\<rparr>),
                 Diagnostics := Append (Diagnostics resp) diags\<rparr>,
            \<lparr>world = w2, calls = calls rs @
               [AddZoneRecordCall (ValueString (zr_Domain plan)) (ValueString (zr_Subdomain plan))
                  sub,
                GetZoneRecordsCall (ValueString (zr_Domain plan))
                  (ValueString (zr_Subdomain plan))]\<rparr>)"
    using Create_explicit [OF assms(1-6), folded P] by (simp only: found option.case)
  with f fields assms(2) show ?thesis
    by (simp add: uint_ucast_32_mod scast_ucast_32_bounds)
qed

theorem zone_record_create_duplicates_first_wins_witness:
  "zoneRecordResource_Create \<lparr>zr_client = Some mem_API\<rparr> \<lparr>cr_Plan = ([], example_plan)\<rparr>
     \<lparr>State = None, Diagnostics = []\<rparr> \<lparr>world = example_memory, calls = []\<rparr>
   = Inr (\<lparr>State = Some (example_plan\<lparr>zr_Record :=
              \<lparr>m_Type = Known ''A'', m_Ttl = Known 3600, m_Priority = Known 0,
               m_Value = Known ''192.0.2.1'', m_RecordId = Known 7\<rparr>\<rparr>),
           Diagnostics = []\<rparr>,
          \<lparr>world = \<lparr>records = [example_record 7, example_record 8], subdomains = [''www''],
                     next_id = 9\<rparr>,
           calls = [AddZoneRecordCall ''example.com'' ''www'' (example_record 0),
                    GetZoneRecordsCall ''example.com'' ''www'']\<rparr>)"
proof -
  let ?w = "\<lparr>records = [example_record 7, example_record 8], subdomains = [''www''],
             next_id = 9\<rparr>"
  let ?same = "\<lambda>rec. (Type rec, Value rec, TTL rec, Priority rec) =
     (Type (example_record 0), Value (example_record 0), TTL (example_record 0),
      Priority (example_record 0))"
  have h1: "cr_Plan \<lparr>cr_Plan = ([], example_plan)\<rparr> = ([], example_plan)"
    by simp
  have h2: "\<not> HasError (Append (Diagnostics \<lparr>State = None, Diagnostics = []\<rparr>) [])"
    by simp
  have h3: "zr_client \<lparr>zr_client = Some mem_API\<rparr> = Some mem_API"
    by simp
  have h5: "AddZoneRecord mem_API (ValueString (zr_Domain example_plan))
              (ValueString (zr_Subdomain example_plan)) (example_record 0)
              (world \<lparr>world = example_memory, calls = []\<rparr>) = (None, ?w)"
    by (simp add: example_defs mem_defs)
  have h6: "GetZoneRecords mem_API (ValueString (zr_Domain example_plan))
              (ValueString (zr_Subdomain example_plan)) ?w
            = (([example_record 7, example_record 8], None), ?w)"
    by (simp add: mem_defs)
  have h8: "2 \<le> length (filter ?same [example_record 7, example_record 8])"
    by (simp add: example_record_def)
  have f: "filter ?same [example_record 7, example_record 8]
             = [example_record 7, example_record 8]"
    by (simp add: example_record_def)
  from zone_record_create_duplicates_first_wins
    [OF h1 h2 h3 example_submitted_fields h5 h6 refl h8]
  show ?thesis
    unfolding f by (auto simp add: example_defs)
qed

text \<open>
  C1 as the specification states it fails: in a zone that already holds a record with the
  planned values, the listing after the creation holds that record (identifier 7) and
  the new one (identifier 8); \<^verbatim>\<open>Create\<close> reports no error and stores identifier 7.
\<close>

theorem zone_record_create_duplicates_counterexample:
  "zoneRecordResource_Create \<lparr>zr_client = Some mem_API\<rparr> \<lparr>cr_Plan = ([], example_plan)\<rparr>
     \<lparr>State = None, Diagnostics = []\<rparr> \<lparr>world = example_memory, calls = []\<rparr>
   = Inr (\<lparr>State = Some (example_state 7), Diagnostics = []\<rparr>,
          \<lparr>world = \<lparr>records = [example_record 7, example_record 8], subdomains = [''www''],
                     next_id = 9\<rparr>,
           calls = [AddZoneRecordCall ''example.com'' ''www'' (example_record 0),
                    GetZoneRecordsCall ''example.com'' ''www'']\<rparr>) \<and>
   GetZoneRecords mem_API ''example.com'' ''www''
     \<lparr>records = [example_record 7, example_record 8], subdomains = [''www''], next_id = 9\<rparr>
   = (([example_record 7, example_record 8], None),
      \<lparr>records = [example_record 7, example_record 8], subdomains = [''www''], next_id = 9\<rparr>) \<and>
   recordsMatch (example_record 7) (zr_Record example_plan) \<and>
   recordsMatch (example_record 8) (zr_Record example_plan) \<and>
   m_RecordId (zr_Record (example_state 7)) = Known 7 \<and>
   \<not> HasError []"
  by (simp add: zoneRecordResource_Create_def Let_def invoke_def State_Set_def example_defs
      conv_defs mem_defs)

subsection \<open>C2\<close>

text \<open>
  C2 (as amended). Every zone record \<^verbatim>\<open>Create\<close> whose \<^verbatim>\<open>AddZoneRecord\<close> and listing both
  succeed submits the plan's values and ends with the first entry of the listing, in the
  order the client returned it, whose type, value, TTL and priority equal the submitted
  ones: the new state is the plan with that entry's type and value, its TTL and priority
  (both read back exactly), and as identifier that entry's identifier cut to 32 bits,
  which is the identifier modulo \<open>2 ^ 32\<close> and reads back as the entry's identifier
  exactly when that is representable as a signed 32-bit integer. No diagnostic is added
  then. If no entry matches, \<^verbatim>\<open>Create\<close> adds the error ``Unable to Identify Created
  Record'' and leaves the state as it was.
\<close>

theorem zone_record_create_adopts_first_match:
  assumes "cr_Plan req = (diags, plan)"
    and "\<not> HasError (Append (Diagnostics resp) diags)"
    and "zr_client r = Some api"
    and "sub = \<lparr>ID = scast (ValueInt32 (m_RecordId (zr_Record plan))),
                 TTL = scast (ValueInt32 (m_Ttl (zr_Record plan))),
                 Type = ValueString (m_Type (zr_Record plan)),
                 Value = ValueString (m_Value (zr_Record plan)),
                 Priority = scast (ValueInt32 (m_Priority (zr_Record plan)))\<rparr>"
    and "AddZoneRecord api (ValueString (zr_Domain plan)) (ValueString (zr_Subdomain plan))
           sub (world rs) = (None, w1)"
    and "GetZoneRecords api (ValueString (zr_Domain plan)) (ValueString (zr_Subdomain plan)) w1
           = ((listing, None), w2)"
    and "same_tuple = (\<lambda>rec. (Type rec, Value rec, TTL rec, Priority rec) =
                              (Type sub, Value sub, TTL sub, Priority sub))"
  shows "zoneRecordResource_Create r req resp rs =
     Inr (case find same_tuple listing of
            None \<Rightarrow>
              resp\<lparr>Diagnostics := Append (Diagnostics resp) diags @
                [\<lparr>Severity = SeverityError, Summary = ''Unable to Identify Created Record'',
                  Detail = ''Could not find the newly created record in the API response.'',
                  Path = None\<rparr>]\<rparr>
          | Some rec \<Rightarrow>
              resp\<lparr>State := Some (plan\<lparr>zr_Record :=
                       \<lparr>m_Type = Known (Type rec), m_Ttl = Known (ucast (TTL rec)),
                        m_Priority = Known (ucast (Priority rec)), m_Value = Known (Value rec),
                        m_RecordId = Known (ucast (ID rec))\<rparr>\<rparr>),
                    Diagnostics := Append (Diagnostics resp) diags\<rparr>,
          \<lparr>world = w2, calls = calls rs @
             [AddZoneRecordCall (ValueString (zr_Domain plan)) (ValueString (zr_Subdomain plan)) sub,
              GetZoneRecordsCall (ValueString (zr_Domain plan)) (ValueString (zr_Subdomain plan))]\<rparr>) \<and>
    (\<forall>rec. find same_tuple listing = Some rec \<longrightarrow>
       (scast (ucast (TTL rec) :: 32 word) :: 64 word) = TTL rec \<and>
       (scast (ucast (Priority rec) :: 32 word) :: 64 word) = Priority rec \<and>
       uint (ucast (ID rec) :: 32 word) = uint (ID rec) mod 2 ^ 32 \<and>
       ((scast (ucast (ID rec) :: 32 word) :: 64 word) = ID rec
          \<longleftrightarrow> - (2 ^ 31) \<le> sint (ID rec) \<and> sint (ID rec) < 2 ^ 31)) \<and>
    (find same_tuple listing = None \<longrightarrow>
       HasError (Append (Diagnostics resp) diags @
         [\<lparr>Severity = SeverityError, Summary = ''Unable to Identify Created Record'',
           Detail = ''Could not find the newly created record in the API response.'',
           Path = None\<rparr>]))"
proof -
  have P: "same_tuple = (\<lambda>rec. Type rec = Type sub \<and> Value rec = Value sub \<and>
                          TTL rec = TTL sub \<and> Priority rec = Priority sub)"
    by (simp add: assms(7))
  have eq: "zoneRecordResource_Create r req resp rs =
     Inr (case find same_tuple listing of
            None \<Rightarrow>
              resp\<lparr>Diagnostics := Append (Diagnostics resp) diags @
                [\<lparr>Severity = SeverityError, Summary = ''Unable to Identify Created Record'',
                  Detail = ''Could not find the newly created record in the API response.'',
                  Path = None\<rparr>]\<rparr>
          | Some rec \<Rightarrow>
              resp\<lparr>State := Some (plan\<lparr>zr_Record :=
                       \<lparr>m_Type = Known (Type rec), m_Ttl = Known (ucast (TTL rec)),
                        m_Priority = Known (ucast (Priority rec)), m_Value = Known (Value rec),
                        m_RecordId = Known (ucast (ID rec))\<rparr>\<rparr>),
                    Diagnostics := Append (Diagnostics resp) diags\<rparr>,
          \<lparr>world = w2, calls = calls rs @
             [AddZoneRecordCall (ValueString (zr_Domain plan)) (ValueString (zr_Subdomain plan)) sub,
              GetZoneRecordsCall (ValueString (zr_Domain plan)) (ValueString (zr_Subdomain plan))]\<rparr>)"
    unfolding P by (rule Create_explicit [OF assms(1-6)])
  have fields: "(scast (ucast (TTL rec) :: 32 word) :: 64 word) = TTL rec \<and>
       (scast (ucast (Priority rec) :: 32 word) :: 64 word) = Priority rec"
    if "find same_tuple listing = Some rec" for rec
  proof -
    from find_SomeD [OF that] have "TTL rec = TTL sub" "Priority rec = Priority sub"
      by (simp_all add: P)
    then show ?thesis
      by (simp add: assms(4) scast_ucast_scast)
  qed
  have err: "HasError (Append (Diagnostics resp) diags @
         [\<lparr>Severity = SeverityError, Summary = ''Unable to Identify Created Record'',
           Detail = ''Could not find the newly created record in the API response.'',
           Path = None\<rparr>])"
    using HasError_snoc_error [of "Append (Diagnostics resp) diags"
        "''Unable to Identify Created Record''"
        "''Could not find the newly created record in the API response.''"]
    by (simp only: NewErrorDiagnostic_fields)
  show ?thesis
    using eq fields err by (simp add: uint_ucast_32_mod scast_ucast_32_bounds)
qed

theorem zone_record_create_adopts_first_match_witness:
  "(zoneRecordResource_Create \<lparr>zr_client = Some mem_API\<rparr> \<lparr>cr_Plan = ([], example_plan)\<rparr>
      \<lparr>State = None, Diagnostics = []\<rparr> \<lparr>world = example_memory\<lparr>records := []\<rparr>, calls = []\<rparr>
    = Inr (\<lparr>State = Some (example_plan\<lparr>zr_Record :=
               \<lparr>m_Type = Known ''A'', m_Ttl = Known 3600, m_Priority = Known 0,
                m_Value = Known ''192.0.2.1'', m_RecordId = Known 8\<rparr>\<rparr>),
            Diagnostics = []\<rparr>,
           \<lparr>world = \<lparr>records = [example_record 8], subdomains = [''www''], next_id = 9\<rparr>,
            calls = [AddZoneRecordCall ''example.com'' ''www'' (example_record 0),
                     GetZoneRecordsCall ''example.com'' ''www'']\<rparr>)) \<and>
   (zoneRecordResource_Create \<lparr>zr_client = Some normalising_API\<rparr>
      \<lparr>cr_Plan = ([], example_plan)\<rparr> \<lparr>State = None, Diagnostics = []\<rparr>
      \<lparr>world = example_memory\<lparr>records := []\<rparr>, calls = []\<rparr>
    = Inr (\<lparr>State = None,
            Diagnostics =
              [\<lparr>Severity = SeverityError, Summary = ''Unable to Identify Created Record'',
                Detail = ''Could not find the newly created record in the API response.'',
                Path = None\<rparr>]\<rparr>,
           \<lparr>world = \<lparr>records = [(example_record 8)\<lparr>TTL := 300\<rparr>], subdomains = [''www''],
                      next_id = 9\<rparr>,
            calls = [AddZoneRecordCall ''example.com'' ''www'' (example_record 0),
                     GetZoneRecordsCall ''example.com'' ''www'']\<rparr>))"
proof -
  let ?rs = "\<lparr>world = example_memory\<lparr>records := []\<rparr>, calls = []\<rparr>"
  let ?w = "\<lparr>records = [example_record 8], subdomains = [''www''], next_id = 9\<rparr>"
  let ?w' = "\<lparr>records = [(example_record 8)\<lparr>TTL := 300\<rparr>], subdomains = [''www''], next_id = 9\<rparr>"
  have h1: "cr_Plan \<lparr>cr_Plan = ([], example_plan)\<rparr> = ([], example_plan)"
    by simp
  have h2: "\<not> HasError (Append (Diagnostics \<lparr>State = None, Diagnostics = []\<rparr>) [])"
    by simp
  have h3: "zr_client \<lparr>zr_client = Some mem_API\<rparr> = Some mem_API"
    by simp
  have h5: "AddZoneRecord mem_API (ValueString (zr_Domain example_plan))
              (ValueString (zr_Subdomain example_plan)) (example_record 0) (world ?rs)
            = (None, ?w)"
    by (simp add: example_defs mem_defs)
  have h6: "GetZoneRecords mem_API (ValueString (zr_Domain example_plan))
              (ValueString (zr_Subdomain example_plan)) ?w = (([example_record 8], None), ?w)"
    by (simp add: mem_defs)
  have n3: "zr_client \<lparr>zr_client = Some normalising_API\<rparr> = Some normalising_API"
    by simp
  have n5: "AddZoneRecord normalising_API (ValueString (zr_Domain example_plan))
              (ValueString (zr_Subdomain example_plan)) (example_record 0) (world ?rs)
            = (None, ?w')"
    by (simp add: example_defs mem_defs normalising_API_def normalising_AddZoneRecord_def)
  have n6: "GetZoneRecords normalising_API (ValueString (zr_Domain example_plan))
              (ValueString (zr_Subdomain example_plan)) ?w'
            = (([(example_record 8)\<lparr>TTL := 300\<rparr>], None), ?w')"
    by (simp add: mem_defs normalising_API_def)
  note found = zone_record_create_adopts_first_match
    [OF h1 h2 h3 example_submitted_fields h5 h6 refl, THEN conjunct1]
  note lost = zone_record_create_adopts_first_match
    [OF h1 h2 n3 example_submitted_fields n5 n6 refl, THEN conjunct1]
  show ?thesis
    using found lost by (simp add: example_defs)
qed

text \<open>
  C2 as the specification states it fails: in a zone that numbers the new record
  \<open>2 ^ 32 + 5\<close>, that record is the first and only match of the listing, and \<^verbatim>\<open>Create\<close>
  stores the identifier 5, which is not the entry's identifier but that of the mail
  record listed before it.
\<close>

theorem zone_record_create_truncates_identifier_counterexample:
  "zoneRecordResource_Create \<lparr>zr_client = Some mem_API\<rparr> \<lparr>cr_Plan = ([], example_plan)\<rparr>
     \<lparr>State = None, Diagnostics = []\<rparr> \<lparr>world = example_fresh_large_memory, calls = []\<rparr>
   = Inr (\<lparr>State = Some (example_plan\<lparr>zr_Record :=
              \<lparr>m_Type = Known ''A'', m_Ttl = Known 3600, m_Priority = Known 0,
               m_Value = Known ''192.0.2.1'', m_RecordId = Known 5\<rparr>\<rparr>),
           Diagnostics = []\<rparr>,
          \<lparr>world = \<lparr>records = [example_other, example_record 4294967301],
                     subdomains = [''www''], next_id = 4294967302\<rparr>,
           calls = [AddZoneRecordCall ''example.com'' ''www'' (example_record 0),
                    GetZoneRecordsCall ''example.com'' ''www'']\<rparr>) \<and>
   \<not> recordsMatch example_other (zr_Record example_plan) \<and>
   recordsMatch (example_record 4294967301) (zr_Record example_plan) \<and>
   ID (example_record 4294967301) = 4294967301 \<and>
   int64_of_int32 5 \<noteq> ID (example_record 4294967301) \<and>
   int64_of_int32 5 = ID example_other"
  by (simp add: run_defs example_defs example_other_def example_fresh_large_memory_def
      conv_defs mem_defs)

subsection \<open>C3\<close>

text \<open>
  C3. When the configuration decodes without error, the provider's \<^verbatim>\<open>Configure\<close> first
  rejects unknown values: one attribute diagnostic for an unknown username, one for an
  unknown password, and nothing else happens. Otherwise each credential is the
  configuration value when that is not null and the environment variable when it is;
  an empty resolved username and an empty resolved password each add one attribute
  diagnostic (two when both are empty) and the response is otherwise unchanged: the
  constructor is not consulted and no client is stored. Only with both credentials
  non-empty is the client constructed from exactly these two values.
\<close>

theorem provider_configure_resolves_credentials:
  assumes "Config req = (diags, config)"
    and "\<not> HasError (Append (p_Diagnostics resp) diags)"
    and "ds = Append (p_Diagnostics resp) diags"
    and "username = (if IsNull (Username config) then Getenv ''LOOPIA_USERNAME''
                     else ValueString (Username config))"
    and "password = (if IsNull (Password config) then Getenv ''LOOPIA_PASSWORD''
                     else ValueString (Password config))"
  shows "LoopiaProvider_Configure Getenv loopia_New req resp =
    (if IsUnknown (Username config) \<or> IsUnknown (Password config)
     then resp\<lparr>p_Diagnostics := ds @
            (if IsUnknown (Username config)
             then [NewAttributeErrorDiagnostic ''username'' ''Unknown Loopia API Username''
                     unknown_username_detail] else []) @
            (if IsUnknown (Password config)
             then [NewAttributeErrorDiagnostic ''password'' ''Unknown Loopia API Password''
                     unknown_password_detail] else [])\<rparr>
     else if username = [] \<or> password = []
     then resp\<lparr>p_Diagnostics := ds @
            (if username = []
             then [NewAttributeErrorDiagnostic ''username'' ''Missing Loopia API Username''
                     missing_username_detail] else []) @
            (if password = []
             then [NewAttributeErrorDiagnostic ''password'' ''Missing Loopia API Password''
                     missing_password_detail] else [])\<rparr>
     else case loopia_New username password of
        (client, Some err) \<Rightarrow>
          resp\<lparr>p_Diagnostics := ds @
             [NewErrorDiagnostic ''Unable to Create Loopia API Client'' (client_error_detail err)]\<rparr>
      | (client, None) \<Rightarrow>
          resp\<lparr>p_Diagnostics := ds, DataSourceData := LoopiaAPI client,
               ResourceData := LoopiaAPI client\<rparr>)"
proof -
  have nds: "\<not> HasError ds"
    using assms(2,3) by simp
  have u: "resolve Getenv ''LOOPIA_USERNAME'' (Username config) = username"
    by (simp add: resolve_def assms(4))
  have p: "resolve Getenv ''LOOPIA_PASSWORD'' (Password config) = password"
    by (simp add: resolve_def assms(5))
  have unfold: "LoopiaProvider_Configure Getenv loopia_New req resp =
     (if HasError (unknown_checks config ds) then resp\<lparr>p_Diagnostics := unknown_checks config ds\<rparr>
      else if HasError (missing_checks username password (unknown_checks config ds))
      then resp\<lparr>p_Diagnostics := missing_checks username password (unknown_checks config ds)\<rparr>
      else case loopia_New username password of
          (client, Some err) \<Rightarrow>
            resp\<lparr>p_Diagnostics :=
                   AddError (missing_checks username password (unknown_checks config ds))
                     ''Unable to Create Loopia API Client'' (client_error_detail err)\<rparr>
        | (client, None) \<Rightarrow>
            resp\<lparr>p_Diagnostics := missing_checks username password (unknown_checks config ds),
                 DataSourceData := LoopiaAPI client, ResourceData := LoopiaAPI client\<rparr>)"
    using nds by (simp add: LoopiaProvider_Configure_def assms(1) assms(3) [symmetric] Let_def u p)
  show ?thesis
  proof (cases "IsUnknown (Username config) \<or> IsUnknown (Password config)")
    case True
    then have "HasError (unknown_checks config ds)"
      using nds by (simp add: HasError_unknown_checks)
    then have "LoopiaProvider_Configure Getenv loopia_New req resp
                 = resp\<lparr>p_Diagnostics := unknown_checks config ds\<rparr>"
      by (simp only: unfold if_True)
    then show ?thesis
      using True by (simp only: unknown_checks_eq [OF nds] if_True)
  next
    case False
    then have same: "unknown_checks config ds = ds"
      using nds by (simp add: unknown_checks_eq)
    show ?thesis
    proof (cases "username = [] \<or> password = []")
      case True
      then have "HasError (missing_checks username password ds)"
        using nds by (simp add: HasError_missing_checks)
      then have "LoopiaProvider_Configure Getenv loopia_New req resp
                   = resp\<lparr>p_Diagnostics := missing_checks username password ds\<rparr>"
        using nds by (simp only: unfold same if_True if_False)
      then show ?thesis
        using True False by (simp only: missing_checks_eq [OF nds] if_True if_False)
    next
      case missing: False
      then have same2: "missing_checks username password ds = ds"
        using nds by (simp add: missing_checks_eq)
      have "LoopiaProvider_Configure Getenv loopia_New req resp
              = (case loopia_New username password of
                   (client, Some err) \<Rightarrow>
                     resp\<lparr>p_Diagnostics := AddError ds ''Unable to Create Loopia API Client''
                                              (client_error_detail err)\<rparr>
                 | (client, None) \<Rightarrow>
                     resp\<lparr>p_Diagnostics := ds,
                          DataSourceData := LoopiaAPI client, ResourceData := LoopiaAPI client\<rparr>)"
        using nds by (simp only: unfold same same2 if_False)
      then show ?thesis
        using nds False missing
        by (simp add: AddError_fresh split: prod.splits option.splits)
    qed
  qed
qed

theorem provider_configure_resolves_credentials_witness:
  "LoopiaProvider_Configure example_env example_New
     \<lparr>Config = ([], \<lparr>Username = Null, Password = Null\<rparr>)\<rparr> example_response
   = example_response\<lparr>DataSourceData := LoopiaAPI (Some mem_API),
                       ResourceData := LoopiaAPI (Some mem_API)\<rparr> \<and>
   LoopiaProvider_Configure example_env example_New
     \<lparr>Config = ([], \<lparr>Username = Known ''cfg-user'', Password = Known ''cfg-secret''\<rparr>)\<rparr>
     example_response
   = example_response\<lparr>p_Diagnostics :=
       [NewErrorDiagnostic ''Unable to Create Loopia API Client''
          (client_error_detail ''unknown user cfg-user'')]\<rparr> \<and>
   LoopiaProvider_Configure empty_env example_New
     \<lparr>Config = ([], \<lparr>Username = Null, Password = Null\<rparr>)\<rparr> example_response
   = example_response\<lparr>p_Diagnostics :=
       [NewAttributeErrorDiagnostic ''username'' ''Missing Loopia API Username''
          missing_username_detail,
        NewAttributeErrorDiagnostic ''password'' ''Missing Loopia API Password''
          missing_password_detail]\<rparr> \<and>
   LoopiaProvider_Configure example_env example_New
     \<lparr>Config = ([], \<lparr>Username = Unknown, Password = Known ''cfg-secret''\<rparr>)\<rparr> example_response
   = example_response\<lparr>p_Diagnostics :=
       [NewAttributeErrorDiagnostic ''username'' ''Unknown Loopia API Username''
          unknown_username_detail]\<rparr>"
proof -
  have h2: "\<not> HasError (Append (p_Diagnostics example_response) [])"
    by (simp add: example_response_def)
  have env: "LoopiaProvider_Configure example_env example_New
     \<lparr>Config = ([], \<lparr>Username = Null, Password = Null\<rparr>)\<rparr> example_response
   = example_response\<lparr>DataSourceData := LoopiaAPI (Some mem_API),
                       ResourceData := LoopiaAPI (Some mem_API)\<rparr>"
    using provider_configure_resolves_credentials [of
        "\<lparr>Config = ([], \<lparr>Username = Null, Password = Null\<rparr>)\<rparr>" "[]"
        "\<lparr>Username = Null, Password = Null\<rparr>" example_response,
        OF _ h2 refl refl refl, of example_env example_New]
    by (simp add: example_env_def example_New_def example_response_def)
  have explicit: "LoopiaProvider_Configure example_env example_New
     \<lparr>Config = ([], \<lparr>Username = Known ''cfg-user'', Password = Known ''cfg-secret''\<rparr>)\<rparr>
     example_response
   = example_response\<lparr>p_Diagnostics :=
       [NewErrorDiagnostic ''Unable to Create Loopia API Client''
          (client_error_detail ''unknown user cfg-user'')]\<rparr>"
    using provider_configure_resolves_credentials [of
        "\<lparr>Config = ([], \<lparr>Username = Known ''cfg-user'', Password = Known ''cfg-secret''\<rparr>)\<rparr>"
        "[]" "\<lparr>Username = Known ''cfg-user'', Password = Known ''cfg-secret''\<rparr>"
        example_response, OF _ h2 refl refl refl, of example_env example_New]
    by (simp add: example_env_def example_New_def example_response_def)
  have neither: "LoopiaProvider_Configure empty_env example_New
     \<lparr>Config = ([], \<lparr>Username = Null, Password = Null\<rparr>)\<rparr> example_response
   = example_response\<lparr>p_Diagnostics :=
       [NewAttributeErrorDiagnostic ''username'' ''Missing Loopia API Username''
          missing_username_detail,
        NewAttributeErrorDiagnostic ''password'' ''Missing Loopia API Password''
          missing_password_detail]\<rparr>"
    using provider_configure_resolves_credentials [of
        "\<lparr>Config = ([], \<lparr>Username = Null, Password = Null\<rparr>)\<rparr>" "[]"
        "\<lparr>Username = Null, Password = Null\<rparr>" example_response,
        OF _ h2 refl refl refl, of empty_env example_New]
    by (simp add: empty_env_def example_response_def)
  have unknown: "LoopiaProvider_Configure example_env example_New
     \<lparr>Config = ([], \<lparr>Username = Unknown, Password = Known ''cfg-secret''\<rparr>)\<rparr> example_response
   = example_response\<lparr>p_Diagnostics :=
       [NewAttributeErrorDiagnostic ''username'' ''Unknown Loopia API Username''
          unknown_username_detail]\<rparr>"
    using provider_configure_resolves_credentials [of
        "\<lparr>Config = ([], \<lparr>Username = Unknown, Password = Known ''cfg-secret''\<rparr>)\<rparr>" "[]"
        "\<lparr>Username = Unknown, Password = Known ''cfg-secret''\<rparr>" example_response,
        OF _ h2 refl refl refl, of example_env example_New]
    by (simp add: example_response_def)
  show ?thesis
    using env explicit neither unknown by (intro conjI)
qed

subsection \<open>C4\<close>

text \<open>
  C4. In a subdomain \<^verbatim>\<open>Read\<close> whose listing succeeds no diagnostic is added beyond those
  of decoding the state, and none is an error. If no listed subdomain has the name of
  the state, the state is removed; if one has, the state is written back as it was
  decoded, domain and subdomain.
\<close>

theorem subdomain_read_drops_or_keeps:
  assumes "rr_State req = (diags, state)"
    and "\<not> HasError (Append (Diagnostics resp) diags)"
    and "sd_client r = Some api"
    and "GetSubdomains api (ValueString (sd_Domain state)) (world rs) = ((listing, None), w1)"
  shows "\<exists>resp' rs'. subdomainResource_Read r req resp rs = Inr (resp', rs') \<and>
     Diagnostics resp' = Append (Diagnostics resp) diags \<and>
     \<not> HasError (Diagnostics resp') \<and>
     (if ValueString (sd_Subdomain state) \<in> Name ` set listing
      then State resp' = Some state
      else State resp' = None)"
  using assms(2) by (simp add: subdomain_Read_listed [OF assms])

theorem subdomain_read_drops_or_keeps_witness:
  "(\<exists>resp' rs'.
      subdomainResource_Read \<lparr>sd_client = Some mem_API\<rparr> \<lparr>rr_State = ([], example_subdomain)\<rparr>
        \<lparr>State = Some example_subdomain, Diagnostics = []\<rparr>
        \<lparr>world = example_memory, calls = []\<rparr> = Inr (resp', rs') \<and>
      Diagnostics resp' = [] \<and> State resp' = None) \<and>
   (\<exists>resp' rs'.
      subdomainResource_Read \<lparr>sd_client = Some mem_API\<rparr> \<lparr>rr_State = ([], example_subdomain)\<rparr>
        \<lparr>State = Some example_subdomain, Diagnostics = []\<rparr>
        \<lparr>world = example_memory\<lparr>subdomains := [''www'', ''shop'']\<rparr>, calls = []\<rparr>
        = Inr (resp', rs') \<and>
      Diagnostics resp' = [] \<and> State resp' = Some example_subdomain)"
proof -
  let ?r = "\<lparr>sd_client = Some mem_API\<rparr>"
  let ?req = "\<lparr>rr_State = ([], example_subdomain)\<rparr>"
  let ?resp = "\<lparr>State = Some example_subdomain, Diagnostics = []\<rparr>"
  have h1: "rr_State ?req = ([], example_subdomain)"
    by simp
  have h2: "\<not> HasError (Append (Diagnostics ?resp) [])"
    by simp
  have h3: "sd_client ?r = Some mem_API"
    by simp
  have absent: "GetSubdomains mem_API (ValueString (sd_Domain example_subdomain))
                  (world \<lparr>world = example_memory, calls = []\<rparr>)
                = (([\<lparr>Name = ''www''\<rparr>], None), example_memory)"
    by (simp add: mem_defs example_defs)
  have present: "GetSubdomains mem_API (ValueString (sd_Domain example_subdomain))
                  (world \<lparr>world = example_memory\<lparr>subdomains := [''www'', ''shop'']\<rparr>, calls = []\<rparr>)
                = (([\<lparr>Name = ''www''\<rparr>, \<lparr>Name = ''shop''\<rparr>], None),
                   example_memory\<lparr>subdomains := [''www'', ''shop'']\<rparr>)"
    by (simp add: mem_defs example_defs)
  show ?thesis
    using subdomain_read_drops_or_keeps [OF h1 h2 h3 absent]
      subdomain_read_drops_or_keeps [OF h1 h2 h3 present]
    by (simp add: example_subdomain_def) blast
qed

subsection \<open>C5\<close>

text \<open>
  C5. When the single-record fetch of a zone record \<^verbatim>\<open>Read\<close> returns an error, whatever
  its text (a record that is not found is one such error), \<^verbatim>\<open>Read\<close> adds the error
  diagnostic ``Error Reading Zone Record'' that carries the text and leaves the state as
  it was. No run of \<^verbatim>\<open>Read\<close> empties a state that was present: the handler has no
  branch that removes the resource.
\<close>

theorem zone_record_read_error_is_surfaced:
  assumes "rr_State req = (diags, state)"
    and "\<not> HasError (Append (Diagnostics resp) diags)"
    and "zr_client r = Some api"
    and "GetZoneRecord api (ValueString (zr_Domain state)) (ValueString (zr_Subdomain state))
           (int64_of_int32 (ValueInt32 (m_RecordId (zr_Record state)))) (world rs)
         = ((rec, Some err), w1)"
  shows "(\<exists>resp' rs'. zoneRecordResource_Read r req resp rs = Inr (resp', rs') \<and>
            Diagnostics resp' = Append (Diagnostics resp) diags @
              [NewErrorDiagnostic ''Error Reading Zone Record''
                 (''Could not read zone record ID ''
                    @ Sprintf_d ((ValueInt32 (m_RecordId (zr_Record state))))
                    @ '': '' @ err)] \<and>
            HasError (Diagnostics resp') \<and>
            State resp' = State resp) \<and>
         (\<forall>req2 resp2 rs2 resp'' rs''.
            zoneRecordResource_Read r req2 resp2 rs2 = Inr (resp'', rs'') \<and> State resp'' = None
              \<longrightarrow> State resp2 = None)"
proof -
  have "\<forall>req2 resp2 rs2 resp'' rs''.
            zoneRecordResource_Read r req2 resp2 rs2 = Inr (resp'', rs'') \<and> State resp'' = None
              \<longrightarrow> State resp2 = None"
    using Read_keeps_or_sets_state by fastforce
  then show ?thesis
    by (simp add: Read_fetch_failed [OF assms] HasError_snoc_error)
qed

theorem zone_record_read_error_is_surfaced_witness:
  "\<exists>resp' rs'.
     zoneRecordResource_Read \<lparr>zr_client = Some mem_API\<rparr> \<lparr>rr_State = ([], example_state 9)\<rparr>
       \<lparr>State = Some (example_state 9), Diagnostics = []\<rparr> \<lparr>world = example_memory, calls = []\<rparr>
       = Inr (resp', rs') \<and>
     Diagnostics resp' =
       [NewErrorDiagnostic ''Error Reading Zone Record''
          ''Could not read zone record ID 9: zone record not found''] \<and>
     HasError (Diagnostics resp') \<and>
     State resp' = Some (example_state 9)"
proof -
  have h1: "rr_State \<lparr>rr_State = ([], example_state 9)\<rparr> = ([], example_state 9)"
    by simp
  have h2: "\<not> HasError (Append (Diagnostics \<lparr>State = Some (example_state 9), Diagnostics = []\<rparr>) [])"
    by simp
  have h3: "zr_client \<lparr>zr_client = Some mem_API\<rparr> = Some mem_API"
    by simp
  have h4: "GetZoneRecord mem_API (ValueString (zr_Domain (example_state 9)))
              (ValueString (zr_Subdomain (example_state 9)))
              (int64_of_int32 (ValueInt32 (m_RecordId (zr_Record (example_state 9)))))
              (world \<lparr>world = example_memory, calls = []\<rparr>)
            = ((None, Some ''zone record not found''), example_memory)"
    by (simp add: example_defs conv_defs mem_defs)
  have id: "Sprintf_d ((ValueInt32 (m_RecordId (zr_Record (example_state 9))))) = ''9''"
    by (simp add: example_defs conv_defs Sprintf_d_def digit_def)
  show ?thesis
    using zone_record_read_error_is_surfaced [OF h1 h2 h3 h4, THEN conjunct1]
    by (simp add: id)
qed

subsection \<open>C6\<close>




subsection \<open>C7\<close>

text \<open>
  C7. A subdomain \<^verbatim>\<open>Create\<close> whose \<^verbatim>\<open>AddSubdomain\<close> succeeds stores the plan, its domain
  and its subdomain, as the state. A later \<^verbatim>\<open>Read\<close> of that stored state, in whatever
  remote state, whose listing succeeds and holds the subdomain's name, yields a state
  equal to the plan.
\<close>

theorem subdomain_create_then_read:
  assumes "cr_Plan req = (diags, plan)"
    and "\<not> HasError (Append (Diagnostics resp) diags)"
    and "sd_client r = Some api"
    and "AddSubdomain api (ValueString (sd_Domain plan)) (ValueString (sd_Subdomain plan)) (world rs)
           = (None, w1)"
    and "rr_State req2 = (diags2, stored)"
    and "\<not> HasError (Append (Diagnostics resp2) diags2)"
    and "GetSubdomains api (ValueString (sd_Domain plan)) (world rs2) = ((listing, None), w2)"
    and "ValueString (sd_Subdomain plan) \<in> Name ` set listing"
  shows "\<exists>resp1 rs1. subdomainResource_Create r req resp rs = Inr (resp1, rs1) \<and>
     State resp1 = Some plan \<and>
     (State resp1 = Some stored \<longrightarrow>
        (\<exists>resp3 rs3. subdomainResource_Read r req2 resp2 rs2 = Inr (resp3, rs3) \<and>
           State resp3 = Some plan))"
proof -
  have "subdomainResource_Read r req2 resp2 rs2 =
     Inr (resp2\<lparr>State := Some plan, Diagnostics := Append (Diagnostics resp2) diags2\<rparr>,
          \<lparr>world = w2, calls = calls rs2 @ [GetSubdomainsCall (ValueString (sd_Domain plan))]\<rparr>)"
    if "stored = plan"
    using subdomain_Read_listed [of req2 diags2 plan resp2 r api rs2 listing w2] assms(3,5-8) that
    by simp
  then show ?thesis
    by (simp add: subdomain_Create_added [OF assms(1-4)])
qed

theorem subdomain_create_then_read_witness:
  "\<exists>resp1 rs1 resp3 rs3.
     subdomainResource_Create \<lparr>sd_client = Some mem_API\<rparr> \<lparr>cr_Plan = ([], example_subdomain)\<rparr>
       \<lparr>State = None, Diagnostics = []\<rparr> \<lparr>world = example_memory, calls = []\<rparr>
       = Inr (resp1, rs1) \<and>
     State resp1 = Some example_subdomain \<and>
     subdomainResource_Read \<lparr>sd_client = Some mem_API\<rparr> \<lparr>rr_State = ([], example_subdomain)\<rparr>
       \<lparr>State = Some example_subdomain, Diagnostics = []\<rparr>
       \<lparr>world = example_memory\<lparr>subdomains := [''www'', ''shop'']\<rparr>, calls = []\<rparr>
       = Inr (resp3, rs3) \<and>
     State resp3 = Some example_subdomain"
proof -
  let ?r = "\<lparr>sd_client = Some mem_API\<rparr>"
  have h1: "cr_Plan \<lparr>cr_Plan = ([], example_subdomain)\<rparr> = ([], example_subdomain)"
    by simp
  have h2: "\<not> HasError (Append (Diagnostics \<lparr>State = None, Diagnostics = []\<rparr>) [])"
    by simp
  have h3: "sd_client ?r = Some mem_API"
    by simp
  have h4: "AddSubdomain mem_API (ValueString (sd_Domain example_subdomain))
              (ValueString (sd_Subdomain example_subdomain))
              (world \<lparr>world = example_memory, calls = []\<rparr>)
            = (None, example_memory\<lparr>subdomains := [''www'', ''shop'']\<rparr>)"
    by (simp add: mem_defs example_defs example_subdomain_def)
  have h5: "rr_State \<lparr>rr_State = ([], example_subdomain)\<rparr> = ([], example_subdomain)"
    by simp
  have h6: "\<not> HasError (Append (Diagnostics \<lparr>State = Some example_subdomain, Diagnostics = []\<rparr>) [])"
    by simp
  have h7: "GetSubdomains mem_API (ValueString (sd_Domain example_subdomain))
              (world \<lparr>world = example_memory\<lparr>subdomains := [''www'', ''shop'']\<rparr>, calls = []\<rparr>)
            = (([\<lparr>Name = ''www''\<rparr>, \<lparr>Name = ''shop''\<rparr>], None),
               example_memory\<lparr>subdomains := [''www'', ''shop'']\<rparr>)"
    by (simp add: mem_defs example_defs)
  have h8: "ValueString (sd_Subdomain example_subdomain)
              \<in> Name ` set [\<lparr>Name = ''www''\<rparr>, \<lparr>Name = ''shop''\<rparr>]"
    by (simp add: example_subdomain_def)
  show ?thesis
    using subdomain_create_then_read [OF h1 h2 h3 h4 h5 h6 h7 h8]
    by auto
qed

subsection \<open>C8\<close>



subsection \<open>C9\<close>

text \<open>
  C9. The record that a zone record \<^verbatim>\<open>Create\<close> submits in its first client call,
  whatever the client answers, has TTL 0 when the plan's TTL is null and priority 0 when
  the plan's priority is null. When \<^verbatim>\<open>AddZoneRecord\<close> and the listing both succeed, the
  record that \<^verbatim>\<open>Create\<close> adopts is the first listed record whose type, value, TTL and
  priority equal the submitted ones, so one with TTL 0 and priority 0 for null
  attributes; \<^verbatim>\<open>Create\<close> ends with the error ``Unable to Identify Created Record'' when
  there is none, and so whenever every listed record differs from the submitted one in
  TTL or in priority, whatever its type.
\<close>

theorem null_ttl_and_priority_submitted_as_zero:
  assumes "cr_Plan req = (diags, plan)"
    and "\<not> HasError (Append (Diagnostics resp) diags)"
    and "zr_client r = Some api"
    and "sub = \<lparr>ID = scast (ValueInt32 (m_RecordId (zr_Record plan))),
                 TTL = scast (ValueInt32 (m_Ttl (zr_Record plan))),
                 Type = ValueString (m_Type (zr_Record plan)),
                 Value = ValueString (m_Value (zr_Record plan)),
                 Priority = scast (ValueInt32 (m_Priority (zr_Record plan)))\<rparr>"
    and "AddZoneRecord api (ValueString (zr_Domain plan)) (ValueString (zr_Subdomain plan))
           sub (world rs) = (None, w1)"
    and "GetZoneRecords api (ValueString (zr_Domain plan)) (ValueString (zr_Subdomain plan)) w1
           = ((listing, None), w2)"
    and "accepted = (\<lambda>rec. Type rec = Type sub \<and> Value rec = Value sub \<and>
                            TTL rec = TTL sub \<and> Priority rec = Priority sub)"
  shows "(m_Ttl (zr_Record plan) = Null \<longrightarrow> TTL sub = 0) \<and>
    (m_Priority (zr_Record plan) = Null \<longrightarrow> Priority sub = 0) \<and>
    zoneRecordResource_Create r req resp rs =
     Inr (case find accepted listing of
            None \<Rightarrow>
              resp\<lparr>Diagnostics := Append (Diagnostics resp) diags @
                [\<lparr>Severity = SeverityError, Summary = ''Unable to Identify Created Record'',
                  Detail = ''Could not find the newly created record in the API response.'',
                  Path = None\<rparr>]\<rparr>
          | Some rec \<Rightarrow>
              resp\<lparr>State := Some (plan\<lparr>zr_Record :=
                       \<lparr>m_Type = Known (Type rec), m_Ttl = Known (ucast (TTL rec)),
                        m_Priority = Known (ucast (Priority rec)), m_Value = Known (Value rec),
                        m_RecordId = Known (ucast (ID rec))\<rparr>\<rparr>),
                    Diagnostics := Append (Diagnostics resp) diags\<rparr>,
          \<lparr>world = w2, calls = calls rs @
             [AddZoneRecordCall (ValueString (zr_Domain plan)) (ValueString (zr_Subdomain plan)) sub,
              GetZoneRecordsCall (ValueString (zr_Domain plan)) (ValueString (zr_Subdomain plan))]\<rparr>) \<and>
    (\<forall>rec. find accepted listing = Some rec \<longrightarrow>
       rec \<in> set listing \<and> TTL rec = TTL sub \<and> Priority rec = Priority sub \<and>
       (m_Ttl (zr_Record plan) = Null \<longrightarrow> TTL rec = 0) \<and>
       (m_Priority (zr_Record plan) = Null \<longrightarrow> Priority rec = 0)) \<and>
    ((\<forall>rec \<in> set listing. TTL rec \<noteq> TTL sub \<or> Priority rec \<noteq> Priority sub) \<longrightarrow>
       find accepted listing = None) \<and>
    (\<forall>rs0. \<exists>resp' rs' more.
       zoneRecordResource_Create r req resp rs0 = Inr (resp', rs') \<and>
       calls rs' = calls rs0 @
         AddZoneRecordCall (ValueString (zr_Domain plan)) (ValueString (zr_Subdomain plan)) sub
           # more)"
proof -
  have zero: "(m_Ttl (zr_Record plan) = Null \<longrightarrow> TTL sub = 0) \<and>
    (m_Priority (zr_Record plan) = Null \<longrightarrow> Priority sub = 0)"
    by (simp add: assms(4))
  have eq: "zoneRecordResource_Create r req resp rs =
     Inr (case find accepted listing of
            None \<Rightarrow>
              resp\<lparr>Diagnostics := Append (Diagnostics resp) diags @
                [\<lparr>Severity = SeverityError, Summary = ''Unable to Identify Created Record'',
                  Detail = ''Could not find the newly created record in the API response.'',
                  Path = None\<rparr>]\<rparr>
          | Some rec \<Rightarrow>
              resp\<lparr>State := Some (plan\<lparr>zr_Record :=
                       \<lparr>m_Type = Known (Type rec), m_Ttl = Known (ucast (TTL rec)),
                        m_Priority = Known (ucast (Priority rec)), m_Value = Known (Value rec),
                        m_RecordId = Known (ucast (ID rec))\<rparr>\<rparr>),
                    Diagnostics := Append (Diagnostics resp) diags\<rparr>,
          \<lparr>world = w2, calls = calls rs @
             [AddZoneRecordCall (ValueString (zr_Domain plan)) (ValueString (zr_Subdomain plan)) sub,
              GetZoneRecordsCall (ValueString (zr_Domain plan)) (ValueString (zr_Subdomain plan))]\<rparr>)"
    unfolding assms(7) by (rule Create_explicit [OF assms(1-6)])
  have adopted: "rec \<in> set listing \<and> TTL rec = TTL sub \<and> Priority rec = Priority sub \<and>
       (m_Ttl (zr_Record plan) = Null \<longrightarrow> TTL rec = 0) \<and>
       (m_Priority (zr_Record plan) = Null \<longrightarrow> Priority rec = 0)"
    if "find accepted listing = Some rec" for rec
    using find_SomeD [OF that] zero by (simp add: assms(7))
  have none: "find accepted listing = None"
    if "\<forall>rec \<in> set listing. TTL rec \<noteq> TTL sub \<or> Priority rec \<noteq> Priority sub"
    using that by (auto simp add: find_None_iff_all assms(7))
  have sub: "toClientRecord (zr_Record plan) = sub"
    by (simp only: toClientRecord_fields assms(4))
  have first: "\<exists>resp' rs' more.
       zoneRecordResource_Create r req resp rs0 = Inr (resp', rs') \<and>
       calls rs' = calls rs0 @
         AddZoneRecordCall (ValueString (zr_Domain plan)) (ValueString (zr_Subdomain plan)) sub
           # more" for rs0
    using assms(1-3)
    by (auto simp add: zoneRecordResource_Create_def Let_def invoke_def State_Set_def sub
        split: prod.splits option.splits)
  show ?thesis
    using zero eq adopted none first by blast
qed

theorem null_ttl_and_priority_submitted_as_zero_witness:
  "(zoneRecordResource_Create \<lparr>zr_client = Some mem_API\<rparr> \<lparr>cr_Plan = ([], example_null)\<rparr>
      \<lparr>State = None, Diagnostics = []\<rparr> \<lparr>world = example_priority_memory, calls = []\<rparr>
    = Inr (\<lparr>State = Some (example_null\<lparr>zr_Record :=
               \<lparr>m_Type = Known ''A'', m_Ttl = Known 0, m_Priority = Known 0,
                m_Value = Known ''192.0.2.1'', m_RecordId = Known 8\<rparr>\<rparr>),
            Diagnostics = []\<rparr>,
           \<lparr>world = \<lparr>records = [example_priority_record,
                        \<lparr>ID = 8, TTL = 0, Type = ''A'', Value = ''192.0.2.1'', Priority = 0\<rparr>],
                      subdomains = [''www''], next_id = 9\<rparr>,
            calls = [AddZoneRecordCall ''example.com'' ''www''
                       \<lparr>ID = 0, TTL = 0, Type = ''A'', Value = ''192.0.2.1'', Priority = 0\<rparr>,
                     GetZoneRecordsCall ''example.com'' ''www'']\<rparr>)) \<and>
   (zoneRecordResource_Create \<lparr>zr_client = Some normalising_API\<rparr>
      \<lparr>cr_Plan = ([], example_null)\<rparr> \<lparr>State = None, Diagnostics = []\<rparr>
      \<lparr>world = example_priority_memory, calls = []\<rparr>
    = Inr (\<lparr>State = None,
            Diagnostics =
              [\<lparr>Severity = SeverityError, Summary = ''Unable to Identify Created Record'',
                Detail = ''Could not find the newly created record in the API response.'',
                Path = None\<rparr>]\<rparr>,
           \<lparr>world = \<lparr>records = [example_priority_record,
                        \<lparr>ID = 8, TTL = 300, Type = ''A'', Value = ''192.0.2.1'', Priority = 0\<rparr>],
                      subdomains = [''www''], next_id = 9\<rparr>,
            calls = [AddZoneRecordCall ''example.com'' ''www''
                       \<lparr>ID = 0, TTL = 0, Type = ''A'', Value = ''192.0.2.1'', Priority = 0\<rparr>,
                     GetZoneRecordsCall ''example.com'' ''www'']\<rparr>))"
proof -
  let ?rs = "\<lparr>world = example_priority_memory, calls = []\<rparr>"
  let ?sub = "\<lparr>ID = 0, TTL = 0, Type = ''A'', Value = ''192.0.2.1'', Priority = 0\<rparr> :: loopia_Record"
  let ?w = "\<lparr>records = [example_priority_record, ?sub\<lparr>ID := 8\<rparr>],
             subdomains = [''www''], next_id = 9\<rparr>"
  let ?w' = "\<lparr>records = [example_priority_record, ?sub\<lparr>ID := 8, TTL := 300\<rparr>],
              subdomains = [''www''], next_id = 9\<rparr>"
  have h1: "cr_Plan \<lparr>cr_Plan = ([], example_null)\<rparr> = ([], example_null)"
    by simp
  have h2: "\<not> HasError (Append (Diagnostics \<lparr>State = None, Diagnostics = []\<rparr>) [])"
    by simp
  have h3: "zr_client \<lparr>zr_client = Some mem_API\<rparr> = Some mem_API"
    by simp
  have h4: "?sub = \<lparr>ID = scast (ValueInt32 (m_RecordId (zr_Record example_null))),
                 TTL = scast (ValueInt32 (m_Ttl (zr_Record example_null))),
                 Type = ValueString (m_Type (zr_Record example_null)),
                 Value = ValueString (m_Value (zr_Record example_null)),
                 Priority = scast (ValueInt32 (m_Priority (zr_Record example_null)))\<rparr>"
    by (simp add: example_null_def example_null_plan_def)
  have h5: "AddZoneRecord mem_API (ValueString (zr_Domain example_null))
              (ValueString (zr_Subdomain example_null)) ?sub (world ?rs) = (None, ?w)"
    by (simp add: example_priority_memory_def mem_defs)
  have h6: "GetZoneRecords mem_API (ValueString (zr_Domain example_null))
              (ValueString (zr_Subdomain example_null)) ?w
            = (([example_priority_record, ?sub\<lparr>ID := 8\<rparr>], None), ?w)"
    by (simp add: mem_defs)
  have n3: "zr_client \<lparr>zr_client = Some normalising_API\<rparr> = Some normalising_API"
    by simp
  have n5: "AddZoneRecord normalising_API (ValueString (zr_Domain example_null))
              (ValueString (zr_Subdomain example_null)) ?sub (world ?rs) = (None, ?w')"
    by (simp add: example_priority_memory_def mem_defs normalising_API_def
        normalising_AddZoneRecord_def)
  have n6: "GetZoneRecords normalising_API (ValueString (zr_Domain example_null))
              (ValueString (zr_Subdomain example_null)) ?w'
            = (([example_priority_record, ?sub\<lparr>ID := 8, TTL := 300\<rparr>], None), ?w')"
    by (simp add: mem_defs normalising_API_def)
  note adopted = null_ttl_and_priority_submitted_as_zero
    [OF h1 h2 h3 h4 h5 h6 refl, THEN conjunct2, THEN conjunct2, THEN conjunct1]
  note refused = null_ttl_and_priority_submitted_as_zero
    [OF h1 h2 n3 h4 n5 n6 refl, THEN conjunct2, THEN conjunct2, THEN conjunct1]
  show ?thesis
    using adopted refused
    by (simp add: example_priority_record_def example_null_def example_plan_def)
qed

subsection \<open>C10\<close>

text \<open>
  C10. For each of the two resources and the four data sources: \<^verbatim>\<open>Configure\<close> with nil
  provider data returns the adapter and the response as they were, so a newly made
  adapter keeps its nil client and no diagnostic is added; the response changes only
  when the provider data is a value of another type than \<^verbatim>\<open>*loopia.API\<close>, and then an
  error diagnostic naming that type is added and the adapter is unchanged.
\<close>

theorem adapter_configure_nil_provider_data:
  "(ProviderData req = NilInterface \<longrightarrow>
      zoneRecordResource_Configure r1 req resp = (r1, resp) \<and>
      subdomainResource_Configure r2 req resp = (r2, resp) \<and>
      DomainDataSource_Configure d1 req resp = (d1, resp) \<and>
      DomainsDataSource_Configure d2 req resp = (d2, resp) \<and>
      SubdomainsDataSource_Configure d3 req resp = (d3, resp) \<and>
      zoneRecordsDataSource_Configure d4 req resp = (d4, resp) \<and>
      zr_client (fst (zoneRecordResource_Configure NewZoneRecordResource req resp)) = None \<and>
      sd_client (fst (subdomainResource_Configure NewSubdomainResource req resp)) = None \<and>
      dd_client (fst (DomainDataSource_Configure NewDomainDataSource req resp)) = None \<and>
      ds_client (fst (DomainsDataSource_Configure NewDomainsDataSource req resp)) = None \<and>
      sds_client (fst (SubdomainsDataSource_Configure NewSubdomainsDataSource req resp)) = None \<and>
      zrs_client (fst (zoneRecordsDataSource_Configure NewZoneRecordsDataSource req resp)) = None) \<and>
   ((\<nexists>T. ProviderData req = OtherType T) \<longrightarrow>
      snd (zoneRecordResource_Configure r1 req resp) = resp \<and>
      snd (subdomainResource_Configure r2 req resp) = resp \<and>
      snd (DomainDataSource_Configure d1 req resp) = resp \<and>
      snd (DomainsDataSource_Configure d2 req resp) = resp \<and>
      snd (SubdomainsDataSource_Configure d3 req resp) = resp \<and>
      snd (zoneRecordsDataSource_Configure d4 req resp) = resp) \<and>
   (\<forall>T. ProviderData req = OtherType T \<longrightarrow>
      zoneRecordResource_Configure r1 req resp =
        (r1, resp\<lparr>cfg_Diagnostics := AddError (cfg_Diagnostics resp)
                ''Unexpected Resource Configure Type''
                (''Expected *loopia.API, got: '' @ T
                   @ ''. Please report this issue to the provider developers.'')\<rparr>) \<and>
      subdomainResource_Configure r2 req resp =
        (r2, resp\<lparr>cfg_Diagnostics := AddError (cfg_Diagnostics resp)
                ''Unexpected Data Source Configure Type''
                (''Expected *hashicups.Client, got: '' @ T
                   @ ''. Please report this issue to the provider developers.'')\<rparr>) \<and>
      DomainDataSource_Configure d1 req resp = (d1, unexpected_data_source_type resp T) \<and>
      DomainsDataSource_Configure d2 req resp = (d2, unexpected_data_source_type resp T) \<and>
      SubdomainsDataSource_Configure d3 req resp = (d3, unexpected_data_source_type resp T) \<and>
      zoneRecordsDataSource_Configure d4 req resp = (d4, unexpected_data_source_type resp T) \<and>
      HasError (cfg_Diagnostics (snd (zoneRecordResource_Configure r1 req resp))) \<and>
      HasError (cfg_Diagnostics (snd (subdomainResource_Configure r2 req resp))) \<and>
      HasError (cfg_Diagnostics (snd (DomainDataSource_Configure d1 req resp))) \<and>
      HasError (cfg_Diagnostics (snd (DomainsDataSource_Configure d2 req resp))) \<and>
      HasError (cfg_Diagnostics (snd (SubdomainsDataSource_Configure d3 req resp))) \<and>
      HasError (cfg_Diagnostics (snd (zoneRecordsDataSource_Configure d4 req resp))))"
proof (cases "ProviderData req")
  case NilInterface
  then show ?thesis
    by (simp add: configure_defs new_defs)
next
  case (LoopiaAPI client)
  then show ?thesis
    by (simp add: configure_defs)
next
  case (OtherType T)
  then show ?thesis
    by (simp add: configure_defs HasError_cfg_AddError HasError_unexpected)
      (simp add: cfg_AddError_def)
qed

theorem adapter_configure_nil_provider_data_witness:
  "zoneRecordResource_Configure (NewZoneRecordResource :: memory zoneRecordResource)
     \<lparr>ProviderData = NilInterface\<rparr> \<lparr>cfg_Diagnostics = []\<rparr>
     = (\<lparr>zr_client = None\<rparr>, \<lparr>cfg_Diagnostics = []\<rparr>) \<and>
   subdomainResource_Configure (NewSubdomainResource :: memory subdomainResource)
     \<lparr>ProviderData = NilInterface\<rparr> \<lparr>cfg_Diagnostics = []\<rparr>
     = (\<lparr>sd_client = None\<rparr>, \<lparr>cfg_Diagnostics = []\<rparr>) \<and>
   DomainDataSource_Configure (NewDomainDataSource :: memory DomainDataSource)
     \<lparr>ProviderData = NilInterface\<rparr> \<lparr>cfg_Diagnostics = []\<rparr>
     = (\<lparr>dd_client = None\<rparr>, \<lparr>cfg_Diagnostics = []\<rparr>) \<and>
   snd (DomainDataSource_Configure (NewDomainDataSource :: memory DomainDataSource)
     \<lparr>ProviderData = LoopiaAPI (Some mem_API)\<rparr> \<lparr>cfg_Diagnostics = []\<rparr>)
     = \<lparr>cfg_Diagnostics = []\<rparr> \<and>
   HasError (cfg_Diagnostics (snd (zoneRecordResource_Configure
     (NewZoneRecordResource :: memory zoneRecordResource)
     \<lparr>ProviderData = OtherType ''string''\<rparr> \<lparr>cfg_Diagnostics = []\<rparr>)))"
proof -
  let ?nil = "\<lparr>ProviderData = NilInterface\<rparr> :: memory ConfigureRequest"
  let ?api = "\<lparr>ProviderData = LoopiaAPI (Some mem_API)\<rparr> :: memory ConfigureRequest"
  let ?other = "\<lparr>ProviderData = OtherType ''string''\<rparr> :: memory ConfigureRequest"
  have n: "ProviderData ?nil = NilInterface"
    by simp
  have a: "\<nexists>T. ProviderData ?api = OtherType T"
    by simp
  have o: "ProviderData ?other = OtherType ''string''"
    by simp
  note t1 = adapter_configure_nil_provider_data [of ?nil NewZoneRecordResource
      "\<lparr>cfg_Diagnostics = []\<rparr>" NewSubdomainResource NewDomainDataSource NewDomainsDataSource
      NewSubdomainsDataSource NewZoneRecordsDataSource, THEN conjunct1, rule_format, OF n]
  note t2 = adapter_configure_nil_provider_data [of ?api NewZoneRecordResource
      "\<lparr>cfg_Diagnostics = []\<rparr>" NewSubdomainResource NewDomainDataSource NewDomainsDataSource
      NewSubdomainsDataSource NewZoneRecordsDataSource, THEN conjunct2, THEN conjunct1,
      rule_format, OF a]
  note t3 = adapter_configure_nil_provider_data [of ?other NewZoneRecordResource
      "\<lparr>cfg_Diagnostics = []\<rparr>" NewSubdomainResource NewDomainDataSource NewDomainsDataSource
      NewSubdomainsDataSource NewZoneRecordsDataSource, THEN conjunct2, THEN conjunct2,
      rule_format, OF o]
  show ?thesis
    using t1 t2 t3 unfolding new_defs by blast
qed

end
